theory Spec2Isabelle
  imports Main "HOL-Library.List_Lexorder"
begin

section \<open>Python strings\<close>

text \<open>
  A Python \<open>str\<close> is a sequence of Unicode code points; it is modelled as a list of
  natural numbers, one per code point, so that slicing and \<open>len\<close> count what Python
  counts. \<open>u\<close> turns an ASCII literal of the source into such a list.
\<close>

type_synonym pystr = "nat list"

definition u :: "string \<Rightarrow> pystr" where
  "u s = map (\<lambda>c. (of_char c :: nat)) s"

text \<open>The ellipsis glyph U+2026 that the source strips from titles and author names.\<close>

definition ellipsis :: nat where
  "ellipsis = 8230"

text \<open>\<open>s.replace(c, "")\<close> for a one-character \<open>c\<close>: every occurrence is removed.\<close>

definition remove_char :: "nat \<Rightarrow> pystr \<Rightarrow> pystr" where
  "remove_char c s = filter (\<lambda>x. x \<noteq> c) s"

text \<open>The code points that \<open>str.strip()\<close> removes (Python's \<open>str.isspace\<close>).\<close>

definition is_space :: "nat \<Rightarrow> bool" where
  "is_space c \<longleftrightarrow>
     (9 \<le> c \<and> c \<le> 13) \<or> (28 \<le> c \<and> c \<le> 32) \<or> c = 133 \<or> c = 160 \<or> c = 5760 \<or>
     (8192 \<le> c \<and> c \<le> 8202) \<or> c = 8232 \<or> c = 8233 \<or> c = 8239 \<or> c = 8287 \<or> c = 12288"

definition strip :: "pystr \<Rightarrow> pystr" where
  "strip s = rev (dropWhile is_space (rev (dropWhile is_space s)))"

text \<open>
  \<open>str.lower()\<close> on the letters A to Z; every other code point is left as it is (the
  case mapping of the rest of Unicode is outside this model).
\<close>

definition lower :: "pystr \<Rightarrow> pystr" where
  "lower s = map (\<lambda>c. if 65 \<le> c \<and> c \<le> 90 then c + 32 else c) s"

text \<open>\<open>x in y\<close> on two strings: \<open>x\<close> occurs in \<open>y\<close> as a contiguous substring.\<close>

fun starts_with :: "'a list \<Rightarrow> 'a list \<Rightarrow> bool" where
  "starts_with ys [] = True"
| "starts_with [] (x # xs) = False"
| "starts_with (y # ys) (x # xs) = (x = y \<and> starts_with ys xs)"

fun str_in :: "'a list \<Rightarrow> 'a list \<Rightarrow> bool" where
  "str_in xs [] = (xs = [])"
| "str_in xs (y # ys) = (starts_with (y # ys) xs \<or> str_in xs ys)"

section \<open>The reconciliation check of \<open>get_citations\<close>\<close>

text \<open>
  Lines 252 to 263 of \<open>utils.py\<close>. \<open>cit_title\<close> is \<open>citation["title"]\<close>, the title
  catalogued by the citing-works list; \<open>title\<close> and \<open>authors\<close> are what
  \<open>parse_authors\<close> extracted from the rendered page; \<open>partial_authors\<close> are the names of
  the preview. A warning is an f-string of the source; the model keeps the values it
  interpolates.
\<close>

datatype warning =
    TitleMismatch pystr pystr
  | AuthorMismatch "pystr list" "pystr list"

definition title_ok :: "pystr \<Rightarrow> pystr \<Rightarrow> bool" where
  "title_ok cit_title title \<longleftrightarrow>
     str_in (lower (strip (remove_char ellipsis cit_title))) (lower title)"

definition authors_ok :: "pystr list \<Rightarrow> pystr list \<Rightarrow> bool" where
  "authors_ok partial_authors names \<longleftrightarrow>
     set (map lower partial_authors) \<subseteq> set (map lower names)"

definition citation_warnings :: "pystr \<Rightarrow> pystr list \<Rightarrow> pystr \<Rightarrow> pystr list \<Rightarrow> warning list" where
  "citation_warnings cit_title partial_authors title names =
     (if \<not> title_ok cit_title title then [TitleMismatch cit_title title] else []) @
     (if \<not> authors_ok partial_authors names then [AuthorMismatch partial_authors names] else [])"

section \<open>Values, dictionaries and errors\<close>

text \<open>
  The responses of the search service and the documents of the cache are JSON-like
  values. A Python \<open>dict\<close> keeps its keys in insertion order: it is an association
  list whose keys are distinct, \<open>dict_set\<close> overwriting in place or appending.
\<close>

datatype yval =
    YNull
  | YBool bool
  | YInt int
  | YStr pystr
  | YList "yval list"
  | YDict "(pystr \<times> yval) list"

type_synonym dict = "(pystr \<times> yval) list"

datatype pyerror =
    KeyError
  | TypeError
  | AttributeError
  | AssertionError
  | RuntimeError yval
  | FileNotFoundError
  | IsADirectoryError
  | YAMLError
  | RequestError
  | LookupError
  | IndexError

definition dict_get :: "dict \<Rightarrow> pystr \<Rightarrow> yval option" where
  "dict_get d k = map_of d k"

fun dict_set :: "dict \<Rightarrow> pystr \<Rightarrow> yval \<Rightarrow> dict" where
  "dict_set [] k v = [(k, v)]"
| "dict_set ((k', v') # d) k v = (if k' = k then (k, v) # d else (k', v') # dict_set d k v)"

text \<open>\<open>d.update(e)\<close>: the entries of \<open>e\<close> are stored one after the other.\<close>

definition dict_update :: "dict \<Rightarrow> dict \<Rightarrow> dict" where
  "dict_update d e = fold (\<lambda>(k, v) acc. dict_set acc k v) e d"

text \<open>\<open>v[k]\<close> for a string \<open>k\<close>: only a mapping can be subscripted by a string.\<close>

definition subscript :: "yval \<Rightarrow> pystr \<Rightarrow> pyerror + yval" where
  "subscript v k =
     (case v of
        YDict d \<Rightarrow> (case dict_get d k of None \<Rightarrow> Inl KeyError | Some x \<Rightarrow> Inr x)
      | _ \<Rightarrow> Inl TypeError)"

text \<open>
  What a \<open>for\<close> loop or \<open>list += v\<close> draws from a value: the elements of a list, the
  keys of a mapping, the characters of a string; anything else is not iterable.
\<close>

definition iter :: "yval \<Rightarrow> pyerror + yval list" where
  "iter v =
     (case v of
        YList xs \<Rightarrow> Inr xs
      | YDict d \<Rightarrow> Inr (map (\<lambda>(k, _). YStr k) d)
      | YStr s \<Rightarrow> Inr (map (\<lambda>c. YStr [c]) s)
      | _ \<Rightarrow> Inl TypeError)"

text \<open>\<open>str(n)\<close> for a natural number: its decimal digits.\<close>

fun str_nat :: "nat \<Rightarrow> pystr" where
  "str_nat n = (if n < 10 then [48 + n] else str_nat (n div 10) @ [48 + n mod 10])"

declare str_nat.simps [simp del]

section \<open>The file store\<close>

text \<open>
  A path is the list of its components, \<open>p / name\<close> appends one component (a name
  holds no path separator), and the empty path is the working directory. A file
  holds either a YAML document, written by \<open>save_yaml\<close> and read back by \<open>load_yaml\<close>
  as the value that was dumped, or raw bytes. The world is the file store, the
  environment variable \<open>SERP_API_KEY\<close>, the requests sent to the search service and to
  the web, and the warnings logged.
\<close>

type_synonym path = "pystr list"

datatype fcontent = Yaml yval | Bytes pystr

record world =
  files :: "(path \<times> fcontent) list"
  dirs :: "path list"
  env_api_key :: "pystr option"
  serp_log :: "dict list"
  http_log :: "yval list"
  logged :: "pystr list"

definition is_file :: "path \<Rightarrow> world \<Rightarrow> bool" where
  "is_file p w \<longleftrightarrow> map_of (files w) p \<noteq> None"

definition is_dir :: "path \<Rightarrow> world \<Rightarrow> bool" where
  "is_dir p w \<longleftrightarrow> p = [] \<or> p \<in> set (dirs w)"

definition parent :: "path \<Rightarrow> path" where
  "parent p = butlast p"

fun write_file :: "(path \<times> fcontent) list \<Rightarrow> path \<Rightarrow> fcontent \<Rightarrow> (path \<times> fcontent) list" where
  "write_file [] p f = [(p, f)]"
| "write_file ((p', f') # fs) p f = (if p' = p then (p, f) # fs else (p', f') # write_file fs p f)"

text \<open>\<open>d.mkdir(exist_ok=True, parents=True)\<close>: the directory and those above it.\<close>

definition mkdirs :: "path \<Rightarrow> path list \<Rightarrow> path list" where
  "mkdirs d ds = ds @ filter (\<lambda>q. q \<notin> set ds) (map (\<lambda>n. take n d) [1..<Suc (length d)])"

text \<open>
  \<open>save_yaml\<close> creates the parent directories and writes the document, replacing a
  file of the same path.
\<close>

definition save_yaml :: "yval \<Rightarrow> path \<Rightarrow> world \<Rightarrow> world" where
  "save_yaml v p w =
     w\<lparr>dirs := mkdirs (parent p) (dirs w), files := write_file (files w) p (Yaml v)\<rparr>"

definition load_yaml :: "path \<Rightarrow> world \<Rightarrow> pyerror + yval" where
  "load_yaml p w =
     (case map_of (files w) p of
        None \<Rightarrow> Inl (if is_dir p w then IsADirectoryError else FileNotFoundError)
      | Some (Yaml v) \<Rightarrow> Inr v
      | Some (Bytes b) \<Rightarrow> Inl YAMLError)"

text \<open>\<open>p.unlink()\<close> of a file that exists.\<close>

definition unlink :: "path \<Rightarrow> world \<Rightarrow> world" where
  "unlink p w = w\<lparr>files := filter (\<lambda>(q, _). q \<noteq> p) (files w)\<rparr>"

text \<open>
  \<open>p.open("wb+")\<close> and \<open>f.write(content)\<close>: the directory of the file must exist, and
  the path must not be a directory.
\<close>

definition write_bytes :: "pystr \<Rightarrow> path \<Rightarrow> world \<Rightarrow> pyerror + world" where
  "write_bytes b p w =
     (if is_dir p w then Inl IsADirectoryError
      else if \<not> is_dir (parent p) w then Inl FileNotFoundError
      else Inr (w\<lparr>files := write_file (files w) p (Bytes b)\<rparr>))"

subsection \<open>Globbing\<close>

text \<open>
  The pattern of \<open>search\<close> is \<open>f"{key}_[0-9]*-[0-9]*.yaml"\<close>: the characters of the
  key (matched literally: the keys of this repository hold no glob metacharacter), an
  underscore, a digit, anything, a dash, a digit, anything, and the suffix.
\<close>

datatype gtok = Lit nat | Digit | Star

fun gmatch :: "gtok list \<Rightarrow> pystr \<Rightarrow> bool" where
  "gmatch [] s = (s = [])"
| "gmatch (Lit c # ps) [] = False"
| "gmatch (Lit c # ps) (x # xs) = (x = c \<and> gmatch ps xs)"
| "gmatch (Digit # ps) [] = False"
| "gmatch (Digit # ps) (x # xs) = (48 \<le> x \<and> x \<le> 57 \<and> gmatch ps xs)"
| "gmatch (Star # ps) [] = gmatch ps []"
| "gmatch (Star # ps) (x # xs) = (gmatch ps (x # xs) \<or> gmatch (Star # ps) xs)"

text \<open>\<open>f"{key}"\<close>: an absent key is formatted as the text \<open>None\<close>.\<close>

definition key_str :: "pystr option \<Rightarrow> pystr" where
  "key_str key = (case key of None \<Rightarrow> u ''None'' | Some k \<Rightarrow> k)"

definition page_pattern :: "pystr option \<Rightarrow> gtok list" where
  "page_pattern key =
     map Lit (key_str key) @ [Lit 95, Digit, Star, Lit 45, Digit, Star] @ map Lit (u ''.yaml'')"

text \<open>
  The entries of a directory: the names of the files and directories directly in it.
  \<open>Path.glob\<close> yields the matching entries in the order in which the operating system
  enumerates the directory, which is arbitrary; that order is the parameter
  \<open>scandir_order\<close> of the externals below.
\<close>

definition entries :: "path \<Rightarrow> world \<Rightarrow> pystr list" where
  "entries d w =
     remdups (map last (filter (\<lambda>q. q \<noteq> [] \<and> butlast q = d) (map fst (files w) @ dirs w)))"

section \<open>What lies outside the repository\<close>

text \<open>
  A rendered result page after \<open>BeautifulSoup(content, "html.parser")\<close>: text, or an
  element with its tag, its classes, its \<open>href\<close> attribute if it has one, and its
  children.
\<close>

datatype node = Text pystr | Elem pystr "pystr list" "pystr option" "node list"

text \<open>
  The services and libraries the source calls are parameters of the model:
  \<^item> \<open>serp log q\<close> is \<open>GoogleSearch(q).get_dict()\<close> after the requests \<open>log\<close>;
  \<^item> \<open>next_query v\<close> is \<open>dict(parse_qsl(urlsplit(v).query))\<close>;
  \<^item> \<open>scandir_order\<close> is the order in which the operating system enumerates a directory;
  \<^item> \<open>http_get url\<close> is \<open>requests.get(url, timeout=60).content\<close>;
  \<^item> \<open>soup\<close> is the HTML parser, \<open>yaml_dump\<close> the text \<open>yaml.dump\<close> writes;
  \<^item> \<open>render\<close> formats a warning as the source's f-string does, \<open>py_str\<close> is \<open>str\<close> on
    a value that is not a string;
  \<^item> \<open>tld_of s\<close> is \<open>tldextract.extract(s)\<close> formatted as \<open>f"{domain}.{suffix}"\<close>;
  \<^item> \<open>countries_get c\<close> is \<open>pycountry.countries.get(alpha_2=c)\<close>: it raises, or returns
    nothing, or returns a country, of which the model keeps the name. The cell \<open>c\<close> of
    the table is a string, or \<open>None\<close> for a missing value (NaN).
\<close>

record externals =
  serp :: "dict list \<Rightarrow> dict \<Rightarrow> pyerror + dict"
  next_query :: "yval \<Rightarrow> pyerror + dict"
  scandir_order :: "pystr list \<Rightarrow> pystr list"
  http_get :: "yval \<Rightarrow> pyerror + pystr"
  soup :: "pystr \<Rightarrow> node"
  yaml_dump :: "yval \<Rightarrow> pystr"
  render :: "warning \<Rightarrow> pystr"
  py_str :: "yval \<Rightarrow> pystr"
  tld_of :: "pystr \<Rightarrow> pystr"
  countries_get :: "pystr option \<Rightarrow> pyerror + pystr option"

definition glob :: "externals \<Rightarrow> path \<Rightarrow> gtok list \<Rightarrow> world \<Rightarrow> path list" where
  "glob x d pat w = map (\<lambda>n. d @ [n]) (scandir_order x (filter (gmatch pat) (entries d w)))"

section \<open>\<open>search\<close>\<close>

subsection \<open>Loading existing results\<close>

text \<open>\<open>doc[key]\<close> where the key may be \<open>None\<close>, which no document of the cache holds.\<close>

definition subscript_key :: "yval \<Rightarrow> pystr option \<Rightarrow> pyerror + yval" where
  "subscript_key doc key =
     (case doc of
        YDict d \<Rightarrow> (case key of None \<Rightarrow> Inl KeyError | Some k \<Rightarrow> subscript doc k)
      | _ \<Rightarrow> Inl TypeError)"

text \<open>\<open>for file in files: output += load_yaml(file)[key]\<close>\<close>

fun load_pages :: "pystr option \<Rightarrow> path list \<Rightarrow> yval list \<Rightarrow> world \<Rightarrow> pyerror + yval list" where
  "load_pages key [] output w = Inr output"
| "load_pages key (f # fs) output w =
     (case load_yaml f w of
        Inl e \<Rightarrow> Inl e
      | Inr doc \<Rightarrow>
          (case subscript_key doc key of
             Inl e \<Rightarrow> Inl e
           | Inr v \<Rightarrow>
               (case iter v of
                  Inl e \<Rightarrow> Inl e
                | Inr items \<Rightarrow> load_pages key fs (output @ items) w)))"

text \<open>
  Lines 64 to 72: \<open>None\<close> when the cache does not answer and the live fetch follows,
  otherwise what \<open>search\<close> returns (or raises) without a request.
\<close>

definition cached :: "externals \<Rightarrow> pystr option \<Rightarrow> bool \<Rightarrow> path option \<Rightarrow> bool \<Rightarrow> world \<Rightarrow> (pyerror + yval) option" where
  "cached x key paginate out_path overwrite w =
     (case out_path of
        None \<Rightarrow> None
      | Some p \<Rightarrow>
          if overwrite then None
          else if paginate then
            (let fs = glob x p (page_pattern key) w in
             if length fs > 0 then
               Some (case load_pages key fs [] w of Inl e \<Rightarrow> Inl e | Inr output \<Rightarrow> Inr (YList output))
             else None)
          else if is_file p w then Some (load_yaml p w)
          else None)"

subsection \<open>The live fetch\<close>

text \<open>Lines 75 to 78: the credential of the environment and the page size.\<close>

definition with_defaults :: "dict \<Rightarrow> world \<Rightarrow> pyerror + dict" where
  "with_defaults params w =
     (case (if dict_get params (u ''api_key'') = None
            then (case env_api_key w of
                    None \<Rightarrow> Inl KeyError
                  | Some k \<Rightarrow> Inr (dict_set params (u ''api_key'') (YStr k)))
            else Inr params) of
        Inl e \<Rightarrow> Inl e
      | Inr p \<Rightarrow> Inr (if dict_get p (u ''num'') = None then dict_set p (u ''num'') (YInt 20) else p))"

text \<open>Lines 85 and 86: \<open>results.get("error") is not None\<close> raises.\<close>

definition check_error :: "dict \<Rightarrow> pyerror + unit" where
  "check_error results =
     (case dict_get results (u ''error'') of
        None \<Rightarrow> Inr ()
      | Some YNull \<Rightarrow> Inr ()
      | Some v \<Rightarrow> Inl (RuntimeError v))"

text \<open>
  Lines 89 to 94. The result is the accumulator, the number of new items
  (\<open>len(new_output)\<close>, which the page name needs) and the value of the variable
  \<open>output\<close>: with no key the response itself, and then the fetch must not paginate.
\<close>

definition extract_items :: "pystr option \<Rightarrow> bool \<Rightarrow> dict \<Rightarrow> yval list \<Rightarrow> pyerror + (yval list \<times> nat \<times> yval)" where
  "extract_items key paginate results output =
     (case key of
        None \<Rightarrow> if paginate then Inl AssertionError else Inr (output, 0, YDict results)
      | Some k \<Rightarrow>
          (case subscript (YDict results) k of
             Inl e \<Rightarrow> Inl e
           | Inr new_output \<Rightarrow>
               (case iter new_output of
                  Inl e \<Rightarrow> Inl e
                | Inr items \<Rightarrow> Inr (output @ items, length items, YList (output @ items)))))"

text \<open>Line 99: \<open>f"{key}_{len(output)-len(new_output)}-{len(output)}.yaml"\<close>\<close>

definition page_name :: "pystr option \<Rightarrow> nat \<Rightarrow> nat \<Rightarrow> pystr" where
  "page_name key len_output len_new =
     key_str key @ u ''_'' @ str_nat (len_output - len_new) @ u ''-'' @ str_nat len_output @ u ''.yaml''"

text \<open>Lines 97 to 105: the raw response is persisted, as a page or as the one file.\<close>

definition save_page :: "pystr option \<Rightarrow> bool \<Rightarrow> path option \<Rightarrow> dict \<Rightarrow> nat \<Rightarrow> nat \<Rightarrow> world \<Rightarrow> world" where
  "save_page key paginate out_path results len_output len_new w =
     (case out_path of
        None \<Rightarrow> w
      | Some p \<Rightarrow>
          if paginate then save_yaml (YDict results) (p @ [page_name key len_output len_new]) w
          else save_yaml (YDict results) p w)"

text \<open>\<open>"next" in v\<close>\<close>

definition has_next :: "yval \<Rightarrow> pyerror + bool" where
  "has_next v =
     (case v of
        YDict d \<Rightarrow> Inr (dict_get d (u ''next'') \<noteq> None)
      | YList xs \<Rightarrow> Inr (YStr (u ''next'') \<in> set xs)
      | YStr s \<Rightarrow> Inr (str_in (u ''next'') s)
      | _ \<Rightarrow> Inl TypeError)"

text \<open>
  Lines 108 to 117: the parameters of the continuation (to be merged into the request),
  or nothing when the loop stops.
\<close>

definition continuation :: "externals \<Rightarrow> bool \<Rightarrow> dict \<Rightarrow> pyerror + dict option" where
  "continuation x paginate results =
     (if \<not> paginate then Inr None
      else
        (case has_next (case dict_get results (u ''serpapi_pagination'') of None \<Rightarrow> YList [] | Some v \<Rightarrow> v) of
           Inl e \<Rightarrow> Inl e
         | Inr False \<Rightarrow> Inr None
         | Inr True \<Rightarrow>
             (case dict_get results (u ''serpapi_pagination'') of
                Some (YDict d) \<Rightarrow>
                  (case next_query x (case dict_get d (u ''next'') of None \<Rightarrow> YNull | Some v \<Rightarrow> v) of
                     Inl e \<Rightarrow> Inl e
                   | Inr upd \<Rightarrow> Inr (Some upd))
              | _ \<Rightarrow> Inl AttributeError)))"

text \<open>
  One turn of the loop of lines 82 to 117: the request, the error check, the
  extraction, the write, and the decision to go on. It yields the accumulator, the value
  of \<open>output\<close> and the parameters of the next request, if there is one.
\<close>

definition fetch_page ::
  "externals \<Rightarrow> pystr option \<Rightarrow> bool \<Rightarrow> path option \<Rightarrow> dict \<Rightarrow> yval list \<Rightarrow> world
     \<Rightarrow> (pyerror + (yval list \<times> yval \<times> dict option)) \<times> world" where
  "fetch_page x key paginate out_path q output w =
     (let w1 = w\<lparr>serp_log := serp_log w @ [q]\<rparr> in
      case serp x (serp_log w) q of
        Inl e \<Rightarrow> (Inl e, w1)
      | Inr results \<Rightarrow>
          (case check_error results of
             Inl e \<Rightarrow> (Inl e, w1)
           | Inr _ \<Rightarrow>
               (case extract_items key paginate results output of
                  Inl e \<Rightarrow> (Inl e, w1)
                | Inr (output', len_new, ret) \<Rightarrow>
                    (let w2 = save_page key paginate out_path results (length output') len_new w1 in
                     case continuation x paginate results of
                       Inl e \<Rightarrow> (Inl e, w2)
                     | Inr None \<Rightarrow> (Inr (output', ret, None), w2)
                     | Inr (Some upd) \<Rightarrow> (Inr (output', ret, Some (dict_update q upd)), w2)))))"

text \<open>
  The loop \<open>while True\<close>: it ends when a page carries no continuation, and a service
  that always sends one keeps it running; \<open>None\<close> stands for a loop that never returns.
\<close>

partial_function (option) search_loop ::
  "externals \<Rightarrow> pystr option \<Rightarrow> bool \<Rightarrow> path option \<Rightarrow> dict \<Rightarrow> yval list \<Rightarrow> world
     \<Rightarrow> ((pyerror + yval) \<times> world) option" where
  "search_loop x key paginate out_path q output w =
     (case fetch_page x key paginate out_path q output w of
        (Inl e, w') \<Rightarrow> Some (Inl e, w')
      | (Inr (output', ret, None), w') \<Rightarrow> Some (Inr ret, w')
      | (Inr (output', ret, Some q'), w') \<Rightarrow> search_loop x key paginate out_path q' output' w')"

definition search ::
  "externals \<Rightarrow> dict \<Rightarrow> pystr option \<Rightarrow> bool \<Rightarrow> path option \<Rightarrow> bool \<Rightarrow> world
     \<Rightarrow> ((pyerror + yval) \<times> world) option" where
  "search x params key paginate out_path overwrite w =
     (case cached x key paginate out_path overwrite w of
        Some r \<Rightarrow> Some (r, w)
      | None \<Rightarrow>
          (case with_defaults params w of
             Inl e \<Rightarrow> Some (Inl e, w)
           | Inr q \<Rightarrow> search_loop x key paginate out_path q [] w))"

section \<open>\<open>parse_authors\<close>\<close>

subsection \<open>The parsed page\<close>

text \<open>The elements below a node in document order, the node itself left out.\<close>

fun descendants :: "node \<Rightarrow> node list" where
  "descendants (Text s) = []"
| "descendants (Elem t cs h ch) = concat (map (\<lambda>c. c # descendants c) ch)"

fun get_text :: "node \<Rightarrow> pystr" where
  "get_text (Text s) = s"
| "get_text (Elem t cs h ch) = concat (map get_text ch)"

definition has_tag_class :: "pystr \<Rightarrow> pystr \<Rightarrow> node \<Rightarrow> bool" where
  "has_tag_class tag cls n =
     (case n of Text s \<Rightarrow> False | Elem t cs h ch \<Rightarrow> t = tag \<and> cls \<in> set cs)"

text \<open>\<open>n.find(tag, {"class": cls})\<close>: the first such element below \<open>n\<close>, if any.\<close>

definition find_elem :: "pystr \<Rightarrow> pystr \<Rightarrow> node \<Rightarrow> node option" where
  "find_elem tag cls n = List.find (has_tag_class tag cls) (descendants n)"

text \<open>\<open>n.select("a")\<close>: the anchors below \<open>n\<close>.\<close>

definition select_a :: "node \<Rightarrow> node list" where
  "select_a n =
     filter (\<lambda>m. case m of Text s \<Rightarrow> False | Elem t cs h ch \<Rightarrow> t = u ''a'') (descendants n)"

text \<open>\<open>s.split(sep)\<close> for a separator that is not empty.\<close>

function split_from :: "'a list \<Rightarrow> 'a list \<Rightarrow> 'a list \<Rightarrow> 'a list list" where
  "split_from sep acc [] = [rev acc]"
| "split_from sep acc (c # cs) =
     (if sep \<noteq> [] \<and> starts_with (c # cs) sep
      then rev acc # split_from sep [] (drop (length sep) (c # cs))
      else split_from sep (c # acc) cs)"
  by pat_completeness auto
termination
  by (relation "measure (\<lambda>(sep, acc, s). length s)") auto

definition split_on :: "'a list \<Rightarrow> 'a list \<Rightarrow> 'a list list" where
  "split_on sep s = split_from sep [] s"

text \<open>\<open>sep.join(xs)\<close>\<close>

fun join :: "'a list \<Rightarrow> 'a list list \<Rightarrow> 'a list" where
  "join sep [] = []"
| "join sep [x] = x"
| "join sep (x # y # ys) = x @ sep @ join sep (y # ys)"

text \<open>
  Lines 199 to 201: \<open>{a.get_text(): a["href"] for a in author_info.select("a")}\<close>; an
  anchor with no \<open>href\<close> raises.
\<close>

fun linked_authors :: "node list \<Rightarrow> dict \<Rightarrow> pyerror + dict" where
  "linked_authors [] acc = Inr acc"
| "linked_authors (a # as) acc =
     (case a of
        Text s \<Rightarrow> Inl KeyError
      | Elem t cs None ch \<Rightarrow> Inl KeyError
      | Elem t cs (Some href) ch \<Rightarrow> linked_authors as (dict_set acc (get_text a) (YStr href)))"

text \<open>
  Lines 204 to 207: an author whose name is linked gets the profile link and, as the
  identifier, the characters 16 to 27 of the \<open>href\<close>.
\<close>

definition attach_link :: "dict \<Rightarrow> pystr \<Rightarrow> dict" where
  "attach_link linked name =
     (case dict_get linked name of
        Some (YStr href) \<Rightarrow>
          [(u ''name'', YStr name),
           (u ''link'', YStr (u ''https://scholar.google.com'' @ href)),
           (u ''author_id'', YStr (take 12 (drop 16 href)))]
      | _ \<Rightarrow> [(u ''name'', YStr name)])"

text \<open>
  Lines 180 to 209, after the parser: the title and the authors, or the
  \<open>AttributeError\<close> of calling a method on the \<open>None\<close> that \<open>find\<close> returned.
\<close>

definition author_line :: "node \<Rightarrow> pyerror + (node \<times> pystr)" where
  "author_line article =
     (case find_elem (u ''div'') (u ''gs_fmaa'') article of
        Some info \<Rightarrow> Inr (info, get_text info)
      | None \<Rightarrow>
          (case find_elem (u ''div'') (u ''gs_a'') article of
             None \<Rightarrow> Inl AttributeError
           | Some info \<Rightarrow>
               (case split_on (u ''- '') (get_text info) of
                  [] \<Rightarrow> Inl IndexError
                | first # rest \<Rightarrow> Inr (info, first))))"

definition parse_page :: "node \<Rightarrow> pyerror + (pystr \<times> dict list)" where
  "parse_page page =
     (case find_elem (u ''div'') (u ''gs_ri'') page of
        None \<Rightarrow> Inl AttributeError
      | Some article \<Rightarrow>
          (case find_elem (u ''h3'') (u ''gs_rt'') article of
             None \<Rightarrow> Inl AttributeError
           | Some title_elem \<Rightarrow>
               (case author_line article of
                  Inl e \<Rightarrow> Inl e
                | Inr (author_info, author_names) \<Rightarrow>
                    (case linked_authors (select_a author_info) [] of
                       Inl e \<Rightarrow> Inl e
                     | Inr linked \<Rightarrow>
                         Inr (get_text title_elem,
                              map (\<lambda>name. attach_link linked (strip (remove_char ellipsis name)))
                                (split_on (u '', '') author_names))))))"

subsection \<open>The cached page\<close>

definition read_bytes :: "externals \<Rightarrow> path \<Rightarrow> world \<Rightarrow> pyerror + pystr" where
  "read_bytes x p w =
     (case map_of (files w) p of
        None \<Rightarrow> Inl FileNotFoundError
      | Some (Bytes b) \<Rightarrow> Inr b
      | Some (Yaml v) \<Rightarrow> Inr (yaml_dump x v))"

text \<open>
  Lines 170 to 178: the page is read from \<open>out_path\<close> if it is there and no fresh fetch
  is asked for; otherwise it is fetched and written to \<open>out_path\<close>.
\<close>

definition page_content :: "externals \<Rightarrow> yval \<Rightarrow> path \<Rightarrow> bool \<Rightarrow> world \<Rightarrow> (pyerror + pystr) \<times> world" where
  "page_content x url p overwrite w =
     (if \<not> overwrite \<and> is_file p w then (read_bytes x p w, w)
      else
        (let w1 = w\<lparr>http_log := http_log w @ [url]\<rparr> in
         case http_get x url of
           Inl e \<Rightarrow> (Inl e, w1)
         | Inr content \<Rightarrow>
             (case write_bytes content p w1 of
                Inl e \<Rightarrow> (Inl e, w1)
              | Inr w2 \<Rightarrow> (Inr content, w2))))"

text \<open>
  \<open>parse_authors(url, out_path=None, overwrite=False)\<close>. Lines 166 and 167 come first
  and take \<open>out_path.parent\<close>, whatever \<open>out_path\<close> is: on \<open>None\<close> this is an
  \<open>AttributeError\<close>.
\<close>

definition parse_authors ::
  "externals \<Rightarrow> yval \<Rightarrow> path option \<Rightarrow> bool \<Rightarrow> world \<Rightarrow> (pyerror + (pystr \<times> dict list)) \<times> world" where
  "parse_authors x url out_path overwrite w =
     (case out_path of
        None \<Rightarrow> (Inl AttributeError, w)
      | Some p \<Rightarrow>
          (let w1 = (if is_file (parent p @ [u ''authors.yaml'']) w
                     then unlink (parent p @ [u ''authors.yaml'']) w else w) in
           case page_content x url p overwrite w1 of
             (Inl e, w2) \<Rightarrow> (Inl e, w2)
           | (Inr content, w2) \<Rightarrow> (parse_page (soup x content), w2)))"

section \<open>\<open>get_citations\<close>\<close>

text \<open>
  A computation reads and changes the world and returns a value or raises; \<open>None\<close> is
  a computation that does not return (the loop of \<open>search\<close>).
\<close>

type_synonym 'a comp = "world \<Rightarrow> ((pyerror + 'a) \<times> world) option"

definition then_do :: "'a comp \<Rightarrow> ('a \<Rightarrow> 'b comp) \<Rightarrow> 'b comp" where
  "then_do m f w =
     (case m w of
        None \<Rightarrow> None
      | Some (Inl e, w') \<Rightarrow> Some (Inl e, w')
      | Some (Inr a, w') \<Rightarrow> f a w')"

definition pure_step :: "pyerror + 'a \<Rightarrow> 'a comp" where
  "pure_step r w = Some (r, w)"

definition bind_err :: "pyerror + 'a \<Rightarrow> ('a \<Rightarrow> pyerror + 'b) \<Rightarrow> pyerror + 'b" where
  "bind_err r f = (case r of Inl e \<Rightarrow> Inl e | Inr a \<Rightarrow> f a)"

text \<open>\<open>v.get(k, default)\<close>: only a mapping has the method.\<close>

definition get_default :: "yval \<Rightarrow> pystr \<Rightarrow> yval \<Rightarrow> pyerror + yval" where
  "get_default v k dflt =
     (case v of
        YDict d \<Rightarrow> Inr (case dict_get d k of None \<Rightarrow> dflt | Some x \<Rightarrow> x)
      | _ \<Rightarrow> Inl AttributeError)"

definition as_str :: "yval \<Rightarrow> pyerror + pystr" where
  "as_str v = (case v of YStr s \<Rightarrow> Inr s | _ \<Rightarrow> Inl TypeError)"

fun map_err :: "('a \<Rightarrow> pyerror + 'b) \<Rightarrow> 'a list \<Rightarrow> pyerror + 'b list" where
  "map_err f [] = Inr []"
| "map_err f (a # as) =
     (case f a of
        Inl e \<Rightarrow> Inl e
      | Inr b \<Rightarrow> (case map_err f as of Inl e \<Rightarrow> Inl e | Inr bs \<Rightarrow> Inr (b # bs)))"

text \<open>A value inside an f-string.\<close>

definition format_value :: "externals \<Rightarrow> yval \<Rightarrow> pystr" where
  "format_value x v = (case v of YStr s \<Rightarrow> s | _ \<Rightarrow> py_str x v)"

definition MAX_LEN :: nat where
  "MAX_LEN = 30"

text \<open>
  Lines 229 to 239: the names of the preview, the query that looks the citing work up,
  and the directory of the citation. The title and the names are concatenated and
  joined, so they must be strings.
\<close>

definition citation_query ::
  "externals \<Rightarrow> path option \<Rightarrow> yval \<Rightarrow> pyerror + (pystr \<times> pystr list \<times> dict \<times> path)" where
  "citation_query x out_path citation =
     bind_err (subscript citation (u ''publication_info'')) (\<lambda>pub.
     bind_err (get_default pub (u ''authors'') (YList [])) (\<lambda>authors.
     bind_err (iter authors) (\<lambda>items.
     bind_err (map_err (\<lambda>a. subscript a (u ''name'')) items) (\<lambda>names.
     bind_err (subscript citation (u ''title'')) (\<lambda>t.
     bind_err (as_str t) (\<lambda>title.
     bind_err (map_err as_str names) (\<lambda>partial_authors.
     bind_err (subscript citation (u ''result_id'')) (\<lambda>result_id.
       (case out_path of
          None \<Rightarrow> Inl TypeError
        | Some p \<Rightarrow>
            Inr (title, partial_authors,
                 [(u ''q'', YStr (title @ u '' '' @ join (u '' '') partial_authors)),
                  (u ''engine'', YStr (u ''google_scholar'')),
                  (u ''sort'', YStr (u ''pubdate''))],
                 p @ [take MAX_LEN title @ u '' ('' @ format_value x result_id @ u '')'']))))))))))"

text \<open>Line 247: \<open>results["search_metadata"]["raw_html_file"]\<close>\<close>

definition raw_html_url :: "yval \<Rightarrow> pyerror + yval" where
  "raw_html_url results =
     bind_err (subscript results (u ''search_metadata'')) (\<lambda>m. subscript m (u ''raw_html_file''))"

text \<open>The name of an extracted author: the key is always there.\<close>

definition author_name :: "dict \<Rightarrow> pystr" where
  "author_name a = (case dict_get a (u ''name'') of Some (YStr s) \<Rightarrow> s | _ \<Rightarrow> [])"

text \<open>
  Lines 253 to 265: the warnings are stored in the citation and logged.
\<close>

definition check_citation ::
  "externals \<Rightarrow> dict \<Rightarrow> pystr \<Rightarrow> pystr list \<Rightarrow> pystr \<Rightarrow> dict list \<Rightarrow> world \<Rightarrow> dict \<times> world" where
  "check_citation x citation cit_title partial_authors title authors w =
     (let ws = map (render x) (citation_warnings cit_title partial_authors title (map author_name authors))
      in (dict_set citation (u ''warnings'') (YList (map YStr ws)), w\<lparr>logged := logged w @ ws\<rparr>))"

text \<open>
  Lines 271 to 282: the profile of every author that has an identifier is fetched, not
  paginated, into \<open>citation_path / f"{author_id}.yaml"\<close>.
\<close>

fun add_profiles :: "externals \<Rightarrow> path \<Rightarrow> bool \<Rightarrow> dict list \<Rightarrow> dict list comp" where
  "add_profiles x citation_path overwrite [] = pure_step (Inr [])"
| "add_profiles x citation_path overwrite (a # as) =
     (case dict_get a (u ''author_id'') of
        None \<Rightarrow>
          then_do (add_profiles x citation_path overwrite as) (\<lambda>as'. pure_step (Inr (a # as')))
      | Some author_id \<Rightarrow>
          then_do (search x [(u ''engine'', YStr (u ''google_scholar_author'')), (u ''author_id'', author_id)]
                     None False (Some (citation_path @ [format_value x author_id @ u ''.yaml''])) overwrite)
            (\<lambda>results.
          then_do (pure_step (subscript results (u ''author''))) (\<lambda>info.
          then_do (pure_step (get_default results (u ''cited_by'') (YInt 0))) (\<lambda>cited_by.
          then_do (add_profiles x citation_path overwrite as) (\<lambda>as'.
            pure_step (Inr (dict_set (dict_set a (u ''author'') info) (u ''cited_by'') cited_by # as')))))))"

text \<open>Line 285: \<open>citation["publication_info"]["authors"] = authors\<close>\<close>

definition store_authors :: "dict \<Rightarrow> dict list \<Rightarrow> pyerror + yval" where
  "store_authors c authors =
     (case subscript (YDict c) (u ''publication_info'') of
        Inl e \<Rightarrow> Inl e
      | Inr (YDict pd) \<Rightarrow>
          Inr (YDict (dict_set c (u ''publication_info'')
                 (YDict (dict_set pd (u ''authors'') (YList (map YDict authors))))))
      | Inr _ \<Rightarrow> Inl TypeError)"

text \<open>
  Lines 226 to 285, one turn of the loop over the citations. No exception is caught:
  whatever a step raises leaves the function.
\<close>

definition process_citation :: "externals \<Rightarrow> path option \<Rightarrow> bool \<Rightarrow> yval \<Rightarrow> yval comp" where
  "process_citation x out_path overwrite citation =
     then_do (pure_step (citation_query x out_path citation)) (\<lambda>(cit_title, partial_authors, params, citation_path).
     then_do (search x params None False (Some (citation_path @ [u ''article.yaml''])) overwrite) (\<lambda>results.
     then_do (pure_step (raw_html_url results)) (\<lambda>url.
     then_do (\<lambda>w. Some (parse_authors x url (Some (citation_path @ [u ''article.html''])) overwrite w))
       (\<lambda>(title, authors).
     then_do (\<lambda>w. case citation of
                YDict c \<Rightarrow> (case check_citation x c cit_title partial_authors title authors w of
                              (c', w') \<Rightarrow> Some (Inr c', w'))
              | _ \<Rightarrow> Some (Inl TypeError, w)) (\<lambda>c'.
     then_do (add_profiles x citation_path overwrite authors) (\<lambda>authors'.
     pure_step (store_authors c' authors')))))))"

text \<open>The loop \<open>for citation in citations\<close>.\<close>

fun process_all :: "externals \<Rightarrow> path option \<Rightarrow> bool \<Rightarrow> yval list \<Rightarrow> yval list comp" where
  "process_all x out_path overwrite [] = pure_step (Inr [])"
| "process_all x out_path overwrite (c # cs) =
     then_do (process_citation x out_path overwrite c) (\<lambda>c'.
     then_do (process_all x out_path overwrite cs) (\<lambda>cs'. pure_step (Inr (c' # cs'))))"

definition get_citations :: "externals \<Rightarrow> yval \<Rightarrow> path option \<Rightarrow> bool \<Rightarrow> yval comp" where
  "get_citations x cites_id out_path overwrite =
     then_do (search x [(u ''engine'', YStr (u ''google_scholar'')),
                        (u ''sort'', YStr (u ''pubdate'')),
                        (u ''cites'', cites_id)]
                (Some (u ''organic_results'')) True out_path overwrite) (\<lambda>citations.
     then_do (pure_step (iter citations)) (\<lambda>cs.
     then_do (process_all x out_path overwrite cs) (\<lambda>cs'. pure_step (Inr (YList cs')))))"

section \<open>\<open>get_citation_df\<close>: affiliations and countries\<close>

text \<open>
  A row of the affiliation table as \<open>pd.read_csv\<close> yields it; \<open>None\<close> is a missing
  cell (NaN), which is equal to no string.
\<close>

record csv_row =
  domain :: "pystr option"
  alt_domain :: "pystr option"
  affil_country :: "pystr option"
  affil_name :: "pystr option"

record affil_row = csv_row +
  fallback_domain :: "pystr option"
  fallback_alt_domain :: "pystr option"

text \<open>
  Lines 301 to 307: each domain column is normalised by \<open>extract_tld\<close>, and the
  fallback column is the normalised domain with its dashes removed.
\<close>

definition prepare_row :: "externals \<Rightarrow> csv_row \<Rightarrow> affil_row" where
  "prepare_row x r =
     \<lparr>domain = map_option (tld_of x) (domain r),
      alt_domain = map_option (tld_of x) (alt_domain r),
      affil_country = affil_country r,
      affil_name = affil_name r,
      fallback_domain = map_option (\<lambda>s. remove_char 45 (tld_of x s)) (domain r),
      fallback_alt_domain = map_option (\<lambda>s. remove_char 45 (tld_of x s)) (alt_domain r)\<rparr>"

definition prepare_affil :: "externals \<Rightarrow> csv_row list \<Rightarrow> affil_row list" where
  "prepare_affil x rows = map (prepare_row x) rows"

text \<open>\<open>extract_mail_domain\<close>: what follows the last \<open>"at "\<close> of the email line.\<close>

definition extract_mail_domain :: "externals \<Rightarrow> pystr \<Rightarrow> pystr" where
  "extract_mail_domain x mail =
     tld_of x (case rev (split_on (u ''at '') mail) of [] \<Rightarrow> [] | piece # rest \<Rightarrow> piece)"

datatype affil_warning = NoDash pystr | Multiple pystr

text \<open>Lines 327 to 330 and 333 to 339: the rows selected by the two comparisons.\<close>

definition exact_matches :: "affil_row list \<Rightarrow> pystr \<Rightarrow> affil_row list" where
  "exact_matches rows m = filter (\<lambda>r. domain r = Some m \<or> alt_domain r = Some m) rows"

definition fallback_matches :: "affil_row list \<Rightarrow> pystr \<Rightarrow> affil_row list" where
  "fallback_matches rows m =
     filter (\<lambda>r. fallback_domain r = Some m \<or> fallback_alt_domain r = Some m) rows"

text \<open>
  Lines 327 to 355: the warnings of the author and the country and name that are
  added to the author's data, if any.
\<close>

definition match_affiliation ::
  "affil_row list \<Rightarrow> pystr \<Rightarrow> bool \<Rightarrow> affil_warning list \<times> (pystr option \<times> pystr option) option" where
  "match_affiliation rows mail_domain keep_warnings =
     (let exact = exact_matches rows mail_domain;
          affil = (if length exact = 0 then fallback_matches rows mail_domain else exact);
          ws = (if length exact = 0 \<and> length affil > 1 then [NoDash mail_domain] else []) @
               (if length affil > 0 \<and> length affil > 1 then [Multiple mail_domain] else [])
      in (ws,
          case affil of
            [] \<Rightarrow> None
          | r # rest \<Rightarrow> if ws = [] \<or> keep_warnings then Some (affil_country r, affil_name r) else None))"

text \<open>
  \<open>get_country_name\<close>: \<open>except LookupError\<close> also catches its subclasses \<open>KeyError\<close> and
  \<open>IndexError\<close>, and the function then returns \<open>None\<close>; a lookup that returns
  nothing makes \<open>country.name\<close> an \<open>AttributeError\<close>, which is not caught.
\<close>

definition get_country_name :: "externals \<Rightarrow> pystr option \<Rightarrow> pyerror + pystr option" where
  "get_country_name x abbrv_name =
     (case countries_get x abbrv_name of
        Inl e \<Rightarrow> if e = LookupError \<or> e = KeyError \<or> e = IndexError then Inr None else Inl e
      | Inr None \<Rightarrow> Inl AttributeError
      | Inr (Some name) \<Rightarrow> Inr (Some name))"

text \<open>Line 392: the function is applied to every cell of the country column.\<close>

definition country_names :: "externals \<Rightarrow> pystr option list \<Rightarrow> pyerror + pystr option list" where
  "country_names x column = map_err (get_country_name x) column"

text \<open>
  \<open>Database.get\<close> of pycountry 24.6.1, the release that \<open>setup.py\<close> pins, over a table
  from lower-cased codes to names: a value that is not a string raises \<open>LookupError\<close>;
  a string is lower-cased and looked up, and a key that is missing returns the default,
  \<open>None\<close>.
\<close>

definition pycountry_get :: "(pystr \<times> pystr) list \<Rightarrow> pystr option \<Rightarrow> pyerror + pystr option" where
  "pycountry_get table c =
     (case c of None \<Rightarrow> Inl LookupError | Some s \<Rightarrow> Inr (map_of table (lower s)))"

section \<open>A simulated service\<close>

text \<open>
  A service with twelve articles on three pages of five, five and two items, each page
  but the last carrying a continuation whose query sets \<open>start\<close>. The rest of the
  externals is as plain as can be: directories are enumerated in the order of creation,
  domains are in normal form already, the country table knows Germany, and a warning
  is rendered without the values it names.
\<close>

definition sim_page :: "int list \<Rightarrow> pystr option \<Rightarrow> dict" where
  "sim_page items nxt =
     (u ''articles'', YList (map YInt items)) #
     (case nxt of
        None \<Rightarrow> []
      | Some url \<Rightarrow> [(u ''serpapi_pagination'', YDict [(u ''next'', YStr url)])])"

definition sim_serp :: "dict list \<Rightarrow> dict \<Rightarrow> pyerror + dict" where
  "sim_serp log q =
     (case dict_get q (u ''start'') of
        None \<Rightarrow> Inr (sim_page [0, 1, 2, 3, 4] (Some (u ''?start=5'')))
      | Some v \<Rightarrow>
          if v = YStr (u ''5'') then Inr (sim_page [5, 6, 7, 8, 9] (Some (u ''?start=10'')))
          else Inr (sim_page [10, 11] None))"

definition sim_next_query :: "yval \<Rightarrow> pyerror + dict" where
  "sim_next_query v =
     (if v = YStr (u ''?start=5'') then Inr [(u ''start'', YStr (u ''5''))]
      else if v = YStr (u ''?start=10'') then Inr [(u ''start'', YStr (u ''10''))]
      else Inr [])"

definition sim :: externals where
  "sim =
     \<lparr>serp = sim_serp,
      next_query = sim_next_query,
      scandir_order = (\<lambda>names. names),
      http_get = (\<lambda>url. Inl RequestError),
      soup = (\<lambda>content. Text content),
      yaml_dump = (\<lambda>v. []),
      render = (\<lambda>w. case w of TitleMismatch a b \<Rightarrow> u ''Title missmatch''
                          | AuthorMismatch a b \<Rightarrow> u ''Author missmatch''),
      py_str = (\<lambda>v. []),
      tld_of = (\<lambda>s. s),
      countries_get = pycountry_get [(u ''de'', u ''Germany'')]\<rparr>"

text \<open>An empty store, with the credential in the environment.\<close>

definition empty_world :: world where
  "empty_world = \<lparr>files = [], dirs = [], env_api_key = Some (u ''secret''), serp_log = [], http_log = [], logged = []\<rparr>"

text \<open>
  The query of \<open>scrape_author\<close> for the author \<open>A1\<close>, the directory of its results,
  and the request that \<open>search\<close> sends first.
\<close>

definition sim_params :: dict where
  "sim_params =
     [(u ''engine'', YStr (u ''google_scholar_author'')),
      (u ''author_id'', YStr (u ''A1'')),
      (u ''sort'', YStr (u ''pubdate''))]"

definition sim_dir :: path where
  "sim_dir = [u ''results'', u ''A1'']"

definition sim_query :: dict where
  "sim_query = sim_params @ [(u ''api_key'', YStr (u ''secret'')), (u ''num'', YInt 20)]"

text \<open>The world after the twelve articles were fetched into the empty store.\<close>

definition fetched_world :: world where
  "fetched_world =
     \<lparr>files =
        [(sim_dir @ [u ''articles_0-5.yaml''], Yaml (YDict (sim_page [0, 1, 2, 3, 4] (Some (u ''?start=5''))))),
         (sim_dir @ [u ''articles_5-10.yaml''], Yaml (YDict (sim_page [5, 6, 7, 8, 9] (Some (u ''?start=10''))))),
         (sim_dir @ [u ''articles_10-12.yaml''], Yaml (YDict (sim_page [10, 11] None)))],
      dirs = [[u ''results''], sim_dir],
      env_api_key = Some (u ''secret''),
      serp_log =
        [sim_query, sim_query @ [(u ''start'', YStr (u ''5''))], sim_query @ [(u ''start'', YStr (u ''10''))]],
      http_log = [],
      logged = []\<rparr>"

text \<open>The same service on a system that enumerates a directory in the order of the names.\<close>

definition sim_sorted :: externals where
  "sim_sorted = sim\<lparr>scandir_order := sort\<rparr>"



text \<open>
  Two affiliation tables of one row each: the reference domain with its dash, and
  without it.
\<close>

definition dashed_table :: "csv_row list" where
  "dashed_table =
     [\<lparr>domain = Some (u ''uni-city.edu''), alt_domain = None,
       affil_country = Some (u ''DE''), affil_name = Some (u ''City University'')\<rparr>]"

definition undashed_table :: "csv_row list" where
  "undashed_table =
     [\<lparr>domain = Some (u ''unicity.edu''), alt_domain = None,
       affil_country = Some (u ''DE''), affil_name = Some (u ''City University'')\<rparr>]"

text \<open>
  A crawl: the service lists two citing works for every \<open>cites\<close> query and answers
  every other query with a reference to a rendered page; the page that is fetched
  holds no result block.
\<close>

definition crawl_citation :: "pystr \<Rightarrow> pystr \<Rightarrow> yval" where
  "crawl_citation title rid =
     YDict [(u ''title'', YStr title),
            (u ''result_id'', YStr rid),
            (u ''publication_info'', YDict [(u ''authors'', YList [YDict [(u ''name'', YStr (u ''A. Smith''))]])])]"

definition crawl_list :: dict where
  "crawl_list =
     [(u ''organic_results'',
       YList [crawl_citation (u ''First paper'') (u ''r1''), crawl_citation (u ''Second paper'') (u ''r2'')])]"

definition crawl_article :: dict where
  "crawl_article = [(u ''search_metadata'', YDict [(u ''raw_html_file'', YStr (u ''https://serpapi.com/page.html''))])]"

definition crawl_serp :: "dict list \<Rightarrow> dict \<Rightarrow> pyerror + dict" where
  "crawl_serp log q = (if dict_get q (u ''cites'') \<noteq> None then Inr crawl_list else Inr crawl_article)"

definition crawl :: externals where
  "crawl =
     sim\<lparr>serp := crawl_serp,
         http_get := (\<lambda>url. Inr (u ''<html></html>'')),
         soup := (\<lambda>content. Elem (u ''[document]'') [] None [Elem (u ''html'') [] None []])\<rparr>"

text \<open>
  The requests of that crawl for the citations of \<open>c1\<close> and for the first citing work,
  the directory of the first citing work, and the store after the list was fetched,
  after the first work was looked up, and after its page was fetched.
\<close>

definition crawl_list_query :: dict where
  "crawl_list_query =
     [(u ''engine'', YStr (u ''google_scholar'')), (u ''sort'', YStr (u ''pubdate'')),
      (u ''cites'', YStr (u ''c1'')), (u ''api_key'', YStr (u ''secret'')), (u ''num'', YInt 20)]"

definition crawl_first_params :: dict where
  "crawl_first_params =
     [(u ''q'', YStr (u ''First paper A. Smith'')), (u ''engine'', YStr (u ''google_scholar'')),
      (u ''sort'', YStr (u ''pubdate''))]"

definition crawl_first_dir :: path where
  "crawl_first_dir = [u ''results'', u ''First paper (r1)'']"

definition crawl_world0 :: world where
  "crawl_world0 =
     save_yaml (YDict crawl_list) [u ''results'', u ''organic_results_0-2.yaml'']
       (empty_world\<lparr>serp_log := [crawl_list_query]\<rparr>)"

definition crawl_world1 :: world where
  "crawl_world1 =
     save_yaml (YDict crawl_article) (crawl_first_dir @ [u ''article.yaml''])
       (crawl_world0\<lparr>serp_log := [crawl_list_query,
          crawl_first_params @ [(u ''api_key'', YStr (u ''secret'')), (u ''num'', YInt 20)]]\<rparr>)"

definition crawl_world2 :: world where
  "crawl_world2 =
     crawl_world1\<lparr>http_log := [YStr (u ''https://serpapi.com/page.html'')],
       files := write_file (files crawl_world1) (crawl_first_dir @ [u ''article.html''])
                  (Bytes (u ''<html></html>''))\<rparr>"





section \<open>What a fetch may change\<close>


section \<open>Properties of the reconciliation check\<close>




text \<open>
  The two examples of the specification: a preview author missing from the page gives a
  warning; a preview that is a subset of the page's authors, with a catalogued title
  contained in the extracted one, gives none.
\<close>

lemma author_subset_examples:
  "citation_warnings (u ''Deep Learning for X'') [u ''A. Smith'', u ''C. Doe'']
     (u ''Deep Learning for X and Y'') [u ''A. Smith''] =
     [AuthorMismatch [u ''A. Smith'', u ''C. Doe''] [u ''A. Smith'']]"
  "citation_warnings (u ''Deep Learning for X'') [u ''A. Smith'']
     (u ''Deep Learning for X and Y'') [u ''A. Smith'', u ''B. Lee''] = []"
  by (simp_all add: citation_warnings_def title_ok_def authors_ok_def u_def lower_def strip_def
      remove_char_def ellipsis_def is_space_def)



section \<open>Properties of \<open>search\<close>\<close>

subsection \<open>The store and the loop\<close>

lemma map_of_write_file: "map_of (write_file fs p f) q = (if q = p then Some f else map_of fs q)"
  by (induction fs p f rule: write_file.induct) auto


text \<open>The loop, one turn at a time.\<close>

lemma search_loop_single:
  assumes "fetch_page x key paginate out_path q acc w = (Inr (acc', ret, None), w')"
  shows "search_loop x key paginate out_path q acc w = Some (Inr ret, w')"
  by (subst search_loop.simps) (simp add: assms)

lemma search_loop_next:
  assumes "fetch_page x key paginate out_path q acc w = (Inr (acc', ret, Some q'), w')"
  shows "search_loop x key paginate out_path q acc w = search_loop x key paginate out_path q' acc' w'"
  by (subst search_loop.simps) (simp add: assms)

lemma continuation_next:
  assumes "dict_get r (u ''serpapi_pagination'') = Some (YDict d)"
    and "dict_get d (u ''next'') = Some t" and "next_query x t = Inr n"
  shows "continuation x True r = Inr (Some n)"
  using assms by (simp add: continuation_def has_next_def)

lemma continuation_last:
  assumes "dict_get r (u ''serpapi_pagination'') = None"
  shows "continuation x True r = Inr None"
  using assms by (simp add: continuation_def has_next_def)

text \<open>A page of a paginated fetch that carries a list under the key and no error.\<close>

lemma fetch_page_items:
  assumes "serp x (serp_log w) q = Inr r" and "dict_get r (u ''error'') = None"
    and "dict_get r k = Some (YList items)" and "continuation x True r = Inr nxt"
  shows "fetch_page x (Some k) True (Some p) q acc w =
           (Inr (acc @ items, YList (acc @ items), map_option (dict_update q) nxt),
            save_yaml (YDict r) (p @ [page_name (Some k) (length acc + length items) (length items)])
              (w\<lparr>serp_log := serp_log w @ [q]\<rparr>))"
  using assms
  by (cases nxt) (simp_all add: fetch_page_def check_error_def extract_items_def subscript_def iter_def
      save_page_def Let_def)

text \<open>
  A service that answers the query with three pages, the first two carrying a
  continuation: the fetch returns the items of the three pages in their order and
  writes each response under the name of its range.
\<close>

lemma fetch_of_three:
  assumes miss: "overwrite \<or> glob x p (page_pattern (Some k)) w = []"
    and q0: "with_defaults params w = Inr q0"
    and r1: "serp x (serp_log w) q0 = Inr r1"
      "dict_get r1 (u ''error'') = None"
      "dict_get r1 k = Some (YList p1)"
    and c1: "dict_get r1 (u ''serpapi_pagination'') = Some (YDict d1)"
      "dict_get d1 (u ''next'') = Some t1" "next_query x t1 = Inr n1"
    and r2: "serp x (serp_log w @ [q0]) (dict_update q0 n1) = Inr r2"
      "dict_get r2 (u ''error'') = None"
      "dict_get r2 k = Some (YList p2)"
    and c2: "dict_get r2 (u ''serpapi_pagination'') = Some (YDict d2)"
      "dict_get d2 (u ''next'') = Some t2" "next_query x t2 = Inr n2"
    and r3: "serp x (serp_log w @ [q0, dict_update q0 n1]) (dict_update (dict_update q0 n1) n2) = Inr r3"
      "dict_get r3 (u ''error'') = None"
      "dict_get r3 k = Some (YList p3)"
    and c3: "dict_get r3 (u ''serpapi_pagination'') = None"
  shows "search x params (Some k) True (Some p) overwrite w =
         Some (Inr (YList (p1 @ p2 @ p3)),
           save_yaml (YDict r3)
             (p @ [page_name (Some k) (length p1 + length p2 + length p3) (length p3)])
             (save_yaml (YDict r2) (p @ [page_name (Some k) (length p1 + length p2) (length p2)])
               (save_yaml (YDict r1) (p @ [page_name (Some k) (length p1) (length p1)])
                 (w\<lparr>serp_log := serp_log w @ [q0, dict_update q0 n1, dict_update (dict_update q0 n1) n2]\<rparr>))))"
proof -
  let ?q1 = "dict_update q0 n1"
  let ?q2 = "dict_update ?q1 n2"
  let ?w1 = "save_yaml (YDict r1) (p @ [page_name (Some k) (length p1) (length p1)])
               (w\<lparr>serp_log := serp_log w @ [q0]\<rparr>)"
  let ?w2 = "save_yaml (YDict r2) (p @ [page_name (Some k) (length p1 + length p2) (length p2)])
               (?w1\<lparr>serp_log := serp_log ?w1 @ [?q1]\<rparr>)"
  let ?w3 = "save_yaml (YDict r3) (p @ [page_name (Some k) (length p1 + length p2 + length p3) (length p3)])
               (?w2\<lparr>serp_log := serp_log ?w2 @ [?q2]\<rparr>)"
  have log1: "serp_log ?w1 = serp_log w @ [q0]" by (simp add: save_yaml_def)
  have log2: "serp_log ?w2 = serp_log w @ [q0, ?q1]" by (simp add: save_yaml_def)
  have f1: "fetch_page x (Some k) True (Some p) q0 [] w = (Inr (p1, YList p1, Some ?q1), ?w1)"
    using fetch_page_items [where acc = "[]" and p = p, OF r1 continuation_next [OF c1]]
    by simp
  have f2: "fetch_page x (Some k) True (Some p) ?q1 p1 ?w1 = (Inr (p1 @ p2, YList (p1 @ p2), Some ?q2), ?w2)"
    using fetch_page_items [where w = ?w1 and q = ?q1 and acc = p1 and p = p,
        OF _ r2(2,3) continuation_next [OF c2]] r2(1) log1
    by simp
  have f3: "fetch_page x (Some k) True (Some p) ?q2 (p1 @ p2) ?w2 =
      (Inr (p1 @ p2 @ p3, YList (p1 @ p2 @ p3), None), ?w3)"
    using fetch_page_items [where w = ?w2 and q = ?q2 and acc = "p1 @ p2" and p = p,
        OF _ r3(2,3) continuation_last [OF c3]] r3(1) log2
    by simp
  have loop: "search_loop x (Some k) True (Some p) q0 [] w = Some (Inr (YList (p1 @ p2 @ p3)), ?w3)"
    by (simp add: search_loop_next [OF f1] search_loop_next [OF f2] search_loop_single [OF f3])
  have "cached x (Some k) True (Some p) overwrite w = None"
    using miss by (auto simp: cached_def)
  then have "search x params (Some k) True (Some p) overwrite w = Some (Inr (YList (p1 @ p2 @ p3)), ?w3)"
    using q0 loop by (simp add: search_def)
  then show ?thesis by (simp add: save_yaml_def)
qed

subsection \<open>The simulated service\<close>

lemma str_nat_values:
  "str_nat 0 = u ''0''" "str_nat 5 = u ''5''" "str_nat 10 = u ''10''" "str_nat 12 = u ''12''"
  by (simp_all add: str_nat.simps u_def)

lemma page_names:
  "n = 5 \<Longrightarrow> m = 5 \<Longrightarrow> page_name (Some (u ''articles'')) n m = u ''articles_0-5.yaml''"
  "n = 10 \<Longrightarrow> m = 5 \<Longrightarrow> page_name (Some (u ''articles'')) n m = u ''articles_5-10.yaml''"
  "n = 12 \<Longrightarrow> m = 2 \<Longrightarrow> page_name (Some (u ''articles'')) n m = u ''articles_10-12.yaml''"
  by (simp_all add: page_name_def key_str_def str_nat_values) (simp_all add: u_def)

lemma sim_defaults:
  "env_api_key w = Some (u ''secret'') \<Longrightarrow> with_defaults sim_params w = Inr sim_query"
  by (simp add: with_defaults_def sim_params_def sim_query_def dict_get_def u_def)

lemma sim_query_1:
  "dict_update sim_query [(u ''start'', YStr (u ''5''))] = sim_query @ [(u ''start'', YStr (u ''5''))]"
  by (simp add: dict_update_def sim_query_def sim_params_def u_def)

lemma sim_query_2:
  "dict_update (sim_query @ [(u ''start'', YStr (u ''5''))]) [(u ''start'', YStr (u ''10''))] =
     sim_query @ [(u ''start'', YStr (u ''10''))]"
  by (simp add: dict_update_def sim_query_def sim_params_def u_def)

text \<open>
  The fetch of the twelve articles from the simulated service, whatever the order of
  enumeration and the store it starts from, as long as the cache does not answer.
\<close>

lemma sim_run:
  assumes "overwrite \<or> glob x sim_dir (page_pattern (Some (u ''articles''))) w = []"
    and "env_api_key w = Some (u ''secret'')"
    and "serp x = sim_serp" and "next_query x = sim_next_query"
  shows "search x sim_params (Some (u ''articles'')) True (Some sim_dir) overwrite w =
         Some (Inr (YList (map YInt [0, 1, 2, 3, 4, 5, 6, 7, 8, 9, 10, 11])),
           save_yaml (YDict (sim_page [10, 11] None)) (sim_dir @ [u ''articles_10-12.yaml''])
             (save_yaml (YDict (sim_page [5, 6, 7, 8, 9] (Some (u ''?start=10''))))
                (sim_dir @ [u ''articles_5-10.yaml''])
               (save_yaml (YDict (sim_page [0, 1, 2, 3, 4] (Some (u ''?start=5''))))
                  (sim_dir @ [u ''articles_0-5.yaml''])
                 (w\<lparr>serp_log := serp_log w @ [sim_query, sim_query @ [(u ''start'', YStr (u ''5''))],
                       sim_query @ [(u ''start'', YStr (u ''10''))]]\<rparr>))))"
proof -
  have "search x sim_params (Some (u ''articles'')) True (Some sim_dir) overwrite w =
         Some (Inr (YList (map YInt [0, 1, 2, 3, 4] @ map YInt [5, 6, 7, 8, 9] @ map YInt [10, 11])),
           save_yaml (YDict (sim_page [10, 11] None))
             (sim_dir @ [page_name (Some (u ''articles''))
                (length (map YInt [0, 1, 2, 3, 4::int]) + length (map YInt [5, 6, 7, 8, 9::int]) +
                 length (map YInt [10, 11::int])) (length (map YInt [10, 11::int]))])
             (save_yaml (YDict (sim_page [5, 6, 7, 8, 9] (Some (u ''?start=10''))))
                (sim_dir @ [page_name (Some (u ''articles''))
                  (length (map YInt [0, 1, 2, 3, 4::int]) + length (map YInt [5, 6, 7, 8, 9::int]))
                  (length (map YInt [5, 6, 7, 8, 9::int]))])
               (save_yaml (YDict (sim_page [0, 1, 2, 3, 4] (Some (u ''?start=5''))))
                  (sim_dir @ [page_name (Some (u ''articles'')) (length (map YInt [0, 1, 2, 3, 4::int]))
                     (length (map YInt [0, 1, 2, 3, 4::int]))])
                 (w\<lparr>serp_log := serp_log w @ [sim_query, dict_update sim_query [(u ''start'', YStr (u ''5''))],
                       dict_update (dict_update sim_query [(u ''start'', YStr (u ''5''))])
                         [(u ''start'', YStr (u ''10''))]]\<rparr>))))"
  proof (rule fetch_of_three [where ?d1.0 = "[(u ''next'', YStr (u ''?start=5''))]"
        and ?t1.0 = "YStr (u ''?start=5'')" and ?d2.0 = "[(u ''next'', YStr (u ''?start=10''))]"
        and ?t2.0 = "YStr (u ''?start=10'')"])
    show "overwrite \<or> glob x sim_dir (page_pattern (Some (u ''articles''))) w = []"
      by (rule assms(1))
    show "with_defaults sim_params w = Inr sim_query"
      by (rule sim_defaults [OF assms(2)])
  qed (simp_all add: sim_query_1 sim_query_2 assms(3,4),
       simp_all add: sim_serp_def sim_next_query_def sim_page_def dict_get_def sim_query_def
         sim_params_def u_def)
  then show ?thesis
    by (simp add: sim_query_1 sim_query_2 page_names)
qed

lemma sim_glob_empty: "glob x sim_dir pat empty_world = [] \<longleftrightarrow> scandir_order x [] = []"
  by (simp add: glob_def entries_def empty_world_def)

lemma sim_run_empty:
  assumes "scandir_order x [] = []" and "serp x = sim_serp" and "next_query x = sim_next_query"
  shows "search x sim_params (Some (u ''articles'')) True (Some sim_dir) False empty_world =
         Some (Inr (YList (map YInt [0, 1, 2, 3, 4, 5, 6, 7, 8, 9, 10, 11])), fetched_world)"
proof -
  have "search x sim_params (Some (u ''articles'')) True (Some sim_dir) False empty_world =
      Some (Inr (YList (map YInt [0, 1, 2, 3, 4, 5, 6, 7, 8, 9, 10, 11])),
           save_yaml (YDict (sim_page [10, 11] None)) (sim_dir @ [u ''articles_10-12.yaml''])
             (save_yaml (YDict (sim_page [5, 6, 7, 8, 9] (Some (u ''?start=10''))))
                (sim_dir @ [u ''articles_5-10.yaml''])
               (save_yaml (YDict (sim_page [0, 1, 2, 3, 4] (Some (u ''?start=5''))))
                  (sim_dir @ [u ''articles_0-5.yaml''])
                 (empty_world\<lparr>serp_log := serp_log empty_world @ [sim_query, sim_query @ [(u ''start'', YStr (u ''5''))],
                       sim_query @ [(u ''start'', YStr (u ''10''))]]\<rparr>))))"
    by (rule sim_run) (simp_all add: sim_glob_empty assms, simp add: empty_world_def)
  also have "save_yaml (YDict (sim_page [10, 11] None)) (sim_dir @ [u ''articles_10-12.yaml''])
             (save_yaml (YDict (sim_page [5, 6, 7, 8, 9] (Some (u ''?start=10''))))
                (sim_dir @ [u ''articles_5-10.yaml''])
               (save_yaml (YDict (sim_page [0, 1, 2, 3, 4] (Some (u ''?start=5''))))
                  (sim_dir @ [u ''articles_0-5.yaml''])
                 (empty_world\<lparr>serp_log := serp_log empty_world @ [sim_query, sim_query @ [(u ''start'', YStr (u ''5''))],
                       sim_query @ [(u ''start'', YStr (u ''10''))]]\<rparr>))) = fetched_world"
    by (simp add: save_yaml_def empty_world_def fetched_world_def mkdirs_def parent_def sim_dir_def
        upt_rec [of 1] upt_rec [of 2] u_def)
  finally show ?thesis .
qed

subsection \<open>Pagination\<close>

text \<open>
  C3. A service that answers with three pages of five, five and two items under the key
  \<open>articles\<close>, the first two with a continuation, and a cache that does not answer:
  \<open>search\<close> returns the twelve items in the order of the pages, sends three requests, and
  writes exactly the three responses, under the names of the ranges 0-5, 5-10 and 10-12.
\<close>

theorem three_pages:
  assumes miss: "overwrite \<or> glob x p (page_pattern (Some (u ''articles''))) w = []"
    and q0: "with_defaults params w = Inr q0"
    and r1: "serp x (serp_log w) q0 = Inr r1"
      "dict_get r1 (u ''error'') = None"
      "dict_get r1 (u ''articles'') = Some (YList p1)"
    and c1: "dict_get r1 (u ''serpapi_pagination'') = Some (YDict d1)"
      "dict_get d1 (u ''next'') = Some t1" "next_query x t1 = Inr n1"
    and r2: "serp x (serp_log w @ [q0]) (dict_update q0 n1) = Inr r2"
      "dict_get r2 (u ''error'') = None"
      "dict_get r2 (u ''articles'') = Some (YList p2)"
    and c2: "dict_get r2 (u ''serpapi_pagination'') = Some (YDict d2)"
      "dict_get d2 (u ''next'') = Some t2" "next_query x t2 = Inr n2"
    and r3: "serp x (serp_log w @ [q0, dict_update q0 n1]) (dict_update (dict_update q0 n1) n2) = Inr r3"
      "dict_get r3 (u ''error'') = None"
      "dict_get r3 (u ''articles'') = Some (YList p3)"
    and c3: "dict_get r3 (u ''serpapi_pagination'') = None"
    and sizes: "length p1 = 5" "length p2 = 5" "length p3 = 2"
  shows "map_option (\<lambda>(r, w'). (r, files w', serp_log w'))
           (search x params (Some (u ''articles'')) True (Some p) overwrite w) =
         Some (Inr (YList (p1 @ p2 @ p3)),
               write_file (write_file (write_file (files w)
                 (p @ [u ''articles_0-5.yaml'']) (Yaml (YDict r1)))
                 (p @ [u ''articles_5-10.yaml'']) (Yaml (YDict r2)))
                 (p @ [u ''articles_10-12.yaml'']) (Yaml (YDict r3)),
               serp_log w @ [q0, dict_update q0 n1, dict_update (dict_update q0 n1) n2])"
  using fetch_of_three [OF miss q0 r1 c1 r2 c2 r3 c3] sizes
  by (simp add: save_yaml_def page_names)

text \<open>The simulated service, on the empty store.\<close>

theorem three_pages_witness:
  "map_option (\<lambda>(r, w'). (r, map fst (files w'), length (serp_log w')))
     (search sim sim_params (Some (u ''articles'')) True (Some sim_dir) False empty_world) =
   Some (Inr (YList (map YInt [0, 1, 2, 3, 4, 5, 6, 7, 8, 9, 10, 11])),
         [sim_dir @ [u ''articles_0-5.yaml''], sim_dir @ [u ''articles_5-10.yaml''],
          sim_dir @ [u ''articles_10-12.yaml'']], 3)"
proof -
  have "map_option (\<lambda>(r, w'). (r, files w', serp_log w'))
           (search sim sim_params (Some (u ''articles'')) True (Some sim_dir) False empty_world) =
         Some (Inr (YList (map YInt [0, 1, 2, 3, 4] @ map YInt [5, 6, 7, 8, 9] @ map YInt [10, 11])),
               write_file (write_file (write_file (files empty_world)
                 (sim_dir @ [u ''articles_0-5.yaml''])
                   (Yaml (YDict (sim_page [0, 1, 2, 3, 4] (Some (u ''?start=5''))))))
                 (sim_dir @ [u ''articles_5-10.yaml''])
                   (Yaml (YDict (sim_page [5, 6, 7, 8, 9] (Some (u ''?start=10''))))))
                 (sim_dir @ [u ''articles_10-12.yaml'']) (Yaml (YDict (sim_page [10, 11] None))),
               serp_log empty_world @ [sim_query, dict_update sim_query [(u ''start'', YStr (u ''5''))],
                 dict_update (dict_update sim_query [(u ''start'', YStr (u ''5''))])
                   [(u ''start'', YStr (u ''10''))]])"
  proof (rule three_pages [where ?d1.0 = "[(u ''next'', YStr (u ''?start=5''))]"
        and ?t1.0 = "YStr (u ''?start=5'')" and ?d2.0 = "[(u ''next'', YStr (u ''?start=10''))]"
        and ?t2.0 = "YStr (u ''?start=10'')"])
    show "False \<or> glob sim sim_dir (page_pattern (Some (u ''articles''))) empty_world = []"
      by (simp add: sim_glob_empty sim_def)
    show "with_defaults sim_params empty_world = Inr sim_query"
      by (simp add: sim_defaults empty_world_def)
  qed (simp_all add: sim_query_1 sim_query_2,
       simp_all add: sim_def sim_serp_def sim_next_query_def sim_page_def dict_get_def sim_query_def
         sim_params_def empty_world_def u_def)
  then show ?thesis
    by (auto simp: empty_world_def sim_dir_def u_def)
qed

subsection \<open>Reloading the pages\<close>

lemma names_sorted:
  "sort [u ''articles_0-5.yaml'', u ''articles_5-10.yaml'', u ''articles_10-12.yaml''] =
     [u ''articles_0-5.yaml'', u ''articles_10-12.yaml'', u ''articles_5-10.yaml'']"
  by (simp add: u_def)

lemma page_matches:
  "gmatch (page_pattern (Some (u ''articles''))) (u ''articles_0-3.yaml'')"
  "gmatch (page_pattern (Some (u ''articles''))) (u ''articles_0-5.yaml'')"
  "gmatch (page_pattern (Some (u ''articles''))) (u ''articles_5-10.yaml'')"
  "gmatch (page_pattern (Some (u ''articles''))) (u ''articles_10-12.yaml'')"
  by (simp_all add: page_pattern_def key_str_def u_def)

lemma fetched_entries:
  "entries sim_dir fetched_world =
     [u ''articles_0-5.yaml'', u ''articles_5-10.yaml'', u ''articles_10-12.yaml'']"
  by (simp add: entries_def fetched_world_def sim_dir_def) (simp add: u_def)

text \<open>
  Where the directory is enumerated in the order of creation, the reload gives the items
  as they were fetched.
\<close>

lemma reload_in_creation_order:
  "search sim sim_params (Some (u ''articles'')) True (Some sim_dir) False fetched_world =
     Some (Inr (YList (map YInt [0, 1, 2, 3, 4, 5, 6, 7, 8, 9, 10, 11])), fetched_world)"
proof -
  have g: "glob sim sim_dir (page_pattern (Some (u ''articles''))) fetched_world =
          [sim_dir @ [u ''articles_0-5.yaml''], sim_dir @ [u ''articles_5-10.yaml''],
           sim_dir @ [u ''articles_10-12.yaml'']]"
    by (simp add: glob_def fetched_entries page_matches sim_def)
  have l: "load_pages (Some (u ''articles''))
          [sim_dir @ [u ''articles_0-5.yaml''], sim_dir @ [u ''articles_5-10.yaml''],
           sim_dir @ [u ''articles_10-12.yaml'']] [] fetched_world
        = Inr (map YInt [0, 1, 2, 3, 4, 5, 6, 7, 8, 9, 10, 11])"
    by (simp add: load_yaml_def fetched_world_def subscript_key_def subscript_def sim_page_def
        dict_get_def iter_def sim_dir_def u_def)
  show ?thesis
    by (simp add: search_def cached_def g l del: load_pages.simps)
qed

text \<open>
  C4 fails on the code: the pages are loaded in the order in which \<open>Path.glob\<close> yields
  them, and nothing sorts them by their ranges. On a system that enumerates the directory
  by name, the page 10-12 comes before the page 5-10: the twelve articles fetched into
  the empty store come back, without a request, as 0 to 4, 10, 11, 5 to 9.
\<close>

theorem reload_in_name_order:
  "search sim_sorted sim_params (Some (u ''articles'')) True (Some sim_dir) False empty_world =
     Some (Inr (YList (map YInt [0, 1, 2, 3, 4, 5, 6, 7, 8, 9, 10, 11])), fetched_world) \<and>
   search sim_sorted sim_params (Some (u ''articles'')) True (Some sim_dir) False fetched_world =
     Some (Inr (YList (map YInt [0, 1, 2, 3, 4, 10, 11, 5, 6, 7, 8, 9])), fetched_world)"
proof -
  have fresh: "search sim_sorted sim_params (Some (u ''articles'')) True (Some sim_dir) False empty_world =
     Some (Inr (YList (map YInt [0, 1, 2, 3, 4, 5, 6, 7, 8, 9, 10, 11])), fetched_world)"
    by (rule sim_run_empty) (simp_all add: sim_sorted_def sim_def)
  have g: "glob sim_sorted sim_dir (page_pattern (Some (u ''articles''))) fetched_world =
          [sim_dir @ [u ''articles_0-5.yaml''], sim_dir @ [u ''articles_10-12.yaml''],
           sim_dir @ [u ''articles_5-10.yaml'']]"
    by (simp add: glob_def fetched_entries page_matches sim_sorted_def del: sort_key_simps)
      (simp add: u_def)
  have l: "load_pages (Some (u ''articles''))
          [sim_dir @ [u ''articles_0-5.yaml''], sim_dir @ [u ''articles_10-12.yaml''],
           sim_dir @ [u ''articles_5-10.yaml'']] [] fetched_world
        = Inr (map YInt [0, 1, 2, 3, 4, 10, 11, 5, 6, 7, 8, 9])"
    by (simp add: load_yaml_def fetched_world_def subscript_key_def subscript_def sim_page_def
        dict_get_def iter_def sim_dir_def u_def)
  have "search sim_sorted sim_params (Some (u ''articles'')) True (Some sim_dir) False fetched_world =
     Some (Inr (YList (map YInt [0, 1, 2, 3, 4, 10, 11, 5, 6, 7, 8, 9])), fetched_world)"
    by (simp add: search_def cached_def g l del: load_pages.simps)
  with fresh show ?thesis by simp
qed

subsection \<open>The single file\<close>

text \<open>
  C9. A fetch that is not paginated, with a key: the fresh call returns the list under
  the key and writes the whole response to \<open>out_path\<close>; the next call finds the file and
  returns the whole response, a mapping and not the list.
\<close>

theorem fresh_and_cached_differ:
  assumes miss: "\<not> is_file p w"
    and q: "with_defaults params w = Inr q"
    and resp: "serp x (serp_log w) q = Inr results"
    and noerr: "dict_get results (u ''error'') = None"
    and items: "dict_get results k = Some (YList items)"
  shows "search x params (Some k) False (Some p) False w =
           Some (Inr (YList items), save_yaml (YDict results) p (w\<lparr>serp_log := serp_log w @ [q]\<rparr>)) \<and>
         search x params' (Some k) False (Some p) False
             (save_yaml (YDict results) p (w\<lparr>serp_log := serp_log w @ [q]\<rparr>)) =
           Some (Inr (YDict results), save_yaml (YDict results) p (w\<lparr>serp_log := serp_log w @ [q]\<rparr>)) \<and>
         YList items \<noteq> YDict results"
proof -
  let ?w' = "save_yaml (YDict results) p (w\<lparr>serp_log := serp_log w @ [q]\<rparr>)"
  have page: "fetch_page x (Some k) False (Some p) q [] w = (Inr (items, YList items, None), ?w')"
    using resp noerr items
    by (simp add: fetch_page_def check_error_def extract_items_def subscript_def iter_def
        save_page_def continuation_def Let_def)
  have "cached x (Some k) False (Some p) False w = None"
    using miss by (simp add: cached_def)
  then have fresh: "search x params (Some k) False (Some p) False w = Some (Inr (YList items), ?w')"
    using q search_loop_single [OF page] by (simp add: search_def)
  have "cached x (Some k) False (Some p) False ?w' = Some (Inr (YDict results))"
    by (simp add: cached_def is_file_def save_yaml_def load_yaml_def map_of_write_file)
  then have again: "search x params' (Some k) False (Some p) False ?w' = Some (Inr (YDict results), ?w')"
    by (simp add: search_def)
  from fresh again show ?thesis by simp
qed

text \<open>The first page of the simulated service, fetched into one file and asked for again.\<close>

theorem fresh_and_cached_differ_witness:
  "\<not> is_file [u ''page.yaml''] empty_world \<and>
   search sim sim_params (Some (u ''articles'')) False (Some [u ''page.yaml'']) False empty_world =
     Some (Inr (YList (map YInt [0, 1, 2, 3, 4])),
           save_yaml (YDict (sim_page [0, 1, 2, 3, 4] (Some (u ''?start=5'')))) [u ''page.yaml'']
             (empty_world\<lparr>serp_log := [sim_query]\<rparr>)) \<and>
   search sim sim_params (Some (u ''articles'')) False (Some [u ''page.yaml'']) False
       (save_yaml (YDict (sim_page [0, 1, 2, 3, 4] (Some (u ''?start=5'')))) [u ''page.yaml'']
         (empty_world\<lparr>serp_log := [sim_query]\<rparr>)) =
     Some (Inr (YDict (sim_page [0, 1, 2, 3, 4] (Some (u ''?start=5'')))),
           save_yaml (YDict (sim_page [0, 1, 2, 3, 4] (Some (u ''?start=5'')))) [u ''page.yaml'']
             (empty_world\<lparr>serp_log := [sim_query]\<rparr>))"
proof -
  have miss: "\<not> is_file [u ''page.yaml''] empty_world"
    by (simp add: is_file_def empty_world_def)
  have q: "with_defaults sim_params empty_world = Inr sim_query"
    by (simp add: sim_defaults empty_world_def)
  have resp: "serp sim (serp_log empty_world) sim_query = Inr (sim_page [0, 1, 2, 3, 4] (Some (u ''?start=5'')))"
    by (simp add: sim_def sim_serp_def sim_query_def sim_params_def dict_get_def u_def)
  have noerr: "dict_get (sim_page [0, 1, 2, 3, 4] (Some (u ''?start=5''))) (u ''error'') = None"
    by (simp add: sim_page_def dict_get_def u_def)
  have items: "dict_get (sim_page [0, 1, 2, 3, 4] (Some (u ''?start=5''))) (u ''articles'') =
      Some (YList (map YInt [0, 1, 2, 3, 4]))"
    by (simp add: sim_page_def dict_get_def)
  from fresh_and_cached_differ [OF miss q resp noerr items, of sim_params] miss
  show ?thesis by (simp add: empty_world_def)
qed

subsection \<open>What an overwriting fetch leaves in place\<close>
















section \<open>Properties of \<open>parse_authors\<close>\<close>

text \<open>
  C8. With the default \<open>out_path=None\<close> the function raises at once, on
  \<open>out_path.parent\<close>: nothing is fetched, read or written, the world is as it was.
\<close>

theorem parse_authors_default_out_path:
  "parse_authors x url None overwrite w = (Inl AttributeError, w)"
  by (simp add: parse_authors_def)

section \<open>Properties of the affiliation and country lookups\<close>

lemma fallback_has_no_dash:
  "fallback_domain (prepare_row x r) = Some m \<or> fallback_alt_domain (prepare_row x r) = Some m \<Longrightarrow>
     45 \<notin> set m"
  by (auto simp: prepare_row_def remove_char_def)

lemma dash_never_matches_fallback:
  "45 \<in> set m \<Longrightarrow> fallback_matches (prepare_affil x rows) m = []"
  unfolding fallback_matches_def prepare_affil_def filter_empty_conv
  using fallback_has_no_dash by fastforce

text \<open>
  C5, as the code has it. When no row matches the email domain exactly, the rows whose
  fallback column equals the email domain itself are taken; the email domain is not
  stripped of its dashes. There is a warning (there are two) exactly when more than
  one such row is found, and the first row's country and name are applied when there
  is one row, or when warnings are kept. An email domain that contains a dash matches
  no fallback column, since those hold no dash.
\<close>

theorem fallback_retry:
  assumes "exact_matches (prepare_affil x rows) m = []"
  shows "fst (match_affiliation (prepare_affil x rows) m keep) =
           (if length (fallback_matches (prepare_affil x rows) m) > 1 then [NoDash m, Multiple m] else []) \<and>
         snd (match_affiliation (prepare_affil x rows) m keep) =
           (case fallback_matches (prepare_affil x rows) m of
              [] \<Rightarrow> None
            | r # rest \<Rightarrow> if rest = [] \<or> keep then Some (affil_country r, affil_name r) else None) \<and>
         (45 \<in> set m \<longrightarrow> match_affiliation (prepare_affil x rows) m keep = ([], None))"
proof -
  let ?fb = "fallback_matches (prepare_affil x rows) m"
  have 1: "fst (match_affiliation (prepare_affil x rows) m keep) =
           (if length ?fb > 1 then [NoDash m, Multiple m] else [])"
    using assms by (simp add: match_affiliation_def Let_def)
  have 2: "snd (match_affiliation (prepare_affil x rows) m keep) =
           (case ?fb of [] \<Rightarrow> None
            | r # rest \<Rightarrow> if rest = [] \<or> keep then Some (affil_country r, affil_name r) else None)"
    using assms by (cases ?fb) (auto simp: match_affiliation_def Let_def)
  have 3: "45 \<in> set m \<longrightarrow> match_affiliation (prepare_affil x rows) m keep = ([], None)"
    using assms by (simp add: match_affiliation_def Let_def dash_never_matches_fallback)
  from 1 2 3 show ?thesis by blast
qed

text \<open>
  The email domain \<open>unicity.edu\<close>, scraped without its dash, finds the reference
  domain \<open>uni-city.edu\<close> through the fallback column; the email domain
  \<open>uni-city.edu\<close> finds nothing in a table that holds \<open>unicity.edu\<close>.
\<close>

theorem fallback_retry_witness:
  "exact_matches (prepare_affil sim dashed_table) (u ''unicity.edu'') = [] \<and>
   match_affiliation (prepare_affil sim dashed_table) (u ''unicity.edu'') False =
     ([], Some (Some (u ''DE''), Some (u ''City University''))) \<and>
   exact_matches (prepare_affil sim undashed_table) (u ''uni-city.edu'') = [] \<and>
   45 \<in> set (u ''uni-city.edu'') \<and>
   match_affiliation (prepare_affil sim undashed_table) (u ''uni-city.edu'') False = ([], None)"
proof -
  have a: "exact_matches (prepare_affil sim dashed_table) (u ''unicity.edu'') = []"
    by (simp add: exact_matches_def prepare_affil_def prepare_row_def dashed_table_def sim_def u_def)
  have b: "exact_matches (prepare_affil sim undashed_table) (u ''uni-city.edu'') = []"
    by (simp add: exact_matches_def prepare_affil_def prepare_row_def undashed_table_def sim_def u_def)
  have c: "45 \<in> set (u ''uni-city.edu'')"
    by (simp add: u_def)
  have d: "fallback_matches (prepare_affil sim dashed_table) (u ''unicity.edu'') =
      [\<lparr>domain = Some (u ''uni-city.edu''), alt_domain = None,
        affil_country = Some (u ''DE''), affil_name = Some (u ''City University''),
        fallback_domain = Some (u ''unicity.edu''), fallback_alt_domain = None\<rparr>]"
    by (simp add: fallback_matches_def prepare_affil_def prepare_row_def dashed_table_def sim_def
        remove_char_def u_def)
  have "match_affiliation (prepare_affil sim dashed_table) (u ''unicity.edu'') False =
     ([], Some (Some (u ''DE''), Some (u ''City University'')))"
    using fallback_retry [OF a, of False] by (simp add: prod_eq_iff d)
  moreover have "match_affiliation (prepare_affil sim undashed_table) (u ''uni-city.edu'') False = ([], None)"
    using fallback_retry [OF b, of False] c by simp
  ultimately show ?thesis using a b c by simp
qed

text \<open>
  C5 as it is stated fails: the email domain \<open>uni-city.edu\<close> is in no exact column,
  its dash-stripped form \<open>unicity.edu\<close> is in a fallback column, and the author gets no
  affiliation.
\<close>

theorem dashed_mail_counterexample:
  "exact_matches (prepare_affil sim undashed_table) (u ''uni-city.edu'') = [] \<and>
   Some (remove_char 45 (u ''uni-city.edu'')) \<in> set (map fallback_domain (prepare_affil sim undashed_table)) \<and>
   snd (match_affiliation (prepare_affil sim undashed_table) (u ''uni-city.edu'') True) = None"
  by (simp add: match_affiliation_def exact_matches_def fallback_matches_def prepare_affil_def
      prepare_row_def undashed_table_def sim_def remove_char_def u_def)

lemma get_country_name_found:
  "countries_get x c = Inr (Some name) \<Longrightarrow> get_country_name x c = Inr (Some name)"
  by (simp add: get_country_name_def)

lemma get_country_name_caught:
  "countries_get x c = Inl LookupError \<Longrightarrow> get_country_name x c = Inr None"
  by (simp add: get_country_name_def)

lemma get_country_name_not_found:
  "countries_get x c = Inr None \<Longrightarrow> get_country_name x c = Inl AttributeError"
  by (simp add: get_country_name_def)

text \<open>
  C7 holds for a code that resolves and for a missing cell, and fails for a string that
  is no country code: the lookup returns \<open>None\<close> without raising, \<open>country.name\<close> raises
  \<open>AttributeError\<close>, the handler catches \<open>LookupError\<close> only, and the column is lost
  with it.
\<close>

theorem get_country_name_unknown_code:
  "get_country_name sim (Some (u ''DE'')) = Inr (Some (u ''Germany'')) \<and>
   get_country_name sim None = Inr None \<and>
   get_country_name sim (Some (u ''XX'')) = Inl AttributeError \<and>
   country_names sim [Some (u ''DE''), None, Some (u ''XX'')] = Inl AttributeError"
  by (simp add: get_country_name_def country_names_def sim_def pycountry_get_def u_def lower_def)

section \<open>Properties of \<open>get_citations\<close>\<close>

lemma then_do_pure [simp]:
  "then_do (pure_step (Inr a)) f = f a"
  "then_do (pure_step (Inl e)) f = pure_step (Inl e)"
  by (rule ext, simp add: then_do_def pure_step_def)+

lemma then_do_returns:
  "m w = Some (Inr a, w') \<Longrightarrow> then_do m f w = f a w'"
  by (simp add: then_do_def)

lemma then_do_raises:
  "m w = Some (Inl e, w') \<Longrightarrow> then_do m f w = Some (Inl e, w')"
  by (simp add: then_do_def)

text \<open>A failure of \<open>parse_authors\<close> leaves the turn of the loop as it is raised.\<close>

lemma process_citation_parse_failure:
  assumes "citation_query x out_path c = Inr (cit_title, partial_authors, q, cp)"
    and "search x q None False (Some (cp @ [u ''article.yaml''])) overwrite w = Some (Inr results, w1)"
    and "raw_html_url results = Inr url"
    and "parse_authors x url (Some (cp @ [u ''article.html''])) overwrite w1 = (Inl e, w2)"
  shows "process_citation x out_path overwrite c w = Some (Inl e, w2)"
  using assms by (simp add: process_citation_def then_do_returns then_do_raises)

text \<open>The first turn that raises ends the loop, whatever citations follow.\<close>

lemma process_all_first_failure:
  assumes "process_all x out_path overwrite before w0 = Some (Inr before', w)"
    and "process_citation x out_path overwrite c w = Some (Inl e, w')"
  shows "process_all x out_path overwrite (before @ c # rest) w0 = Some (Inl e, w')"
  using assms
proof (induction before arbitrary: w0 before')
  case Nil
  then show ?case by (simp add: pure_step_def then_do_raises)
next
  case (Cons b bs)
  from Cons.prems(1) obtain b' w1 bs' where
    b: "process_citation x out_path overwrite b w0 = Some (Inr b', w1)"
    and bs: "process_all x out_path overwrite bs w1 = Some (Inr bs', w)"
    by (auto simp: then_do_def pure_step_def split: option.splits sum.splits prod.splits)
  from Cons.IH [OF bs Cons.prems(2)]
  have "process_all x out_path overwrite (bs @ c # rest) w1 = Some (Inl e, w')" .
  with b show ?case by (simp add: then_do_returns then_do_raises)
qed

text \<open>
  C6, as the code has it. No exception is caught in \<open>get_citations\<close>: when the citations
  before \<open>c\<close> were resolved and \<open>parse_authors\<close> raises on the page of \<open>c\<close>, the whole call
  raises that exception, in the world of the raise; the citations after \<open>c\<close> play no part
  and nothing is returned for those before it.
\<close>

theorem parse_failure_aborts:
  assumes list: "search x [(u ''engine'', YStr (u ''google_scholar'')), (u ''sort'', YStr (u ''pubdate'')),
                    (u ''cites'', cites_id)] (Some (u ''organic_results'')) True out_path overwrite w00 =
                  Some (Inr (YList (before @ c # rest)), w0)"
    and before: "process_all x out_path overwrite before w0 = Some (Inr before', w)"
    and query: "citation_query x out_path c = Inr (cit_title, partial_authors, q, cp)"
    and article: "search x q None False (Some (cp @ [u ''article.yaml''])) overwrite w = Some (Inr results, w1)"
    and url: "raw_html_url results = Inr url"
    and parse: "parse_authors x url (Some (cp @ [u ''article.html''])) overwrite w1 = (Inl e, w2)"
  shows "get_citations x cites_id out_path overwrite w00 = Some (Inl e, w2)"
proof -
  have "process_citation x out_path overwrite c w = Some (Inl e, w2)"
    using query article url parse by (rule process_citation_parse_failure)
  with before have "process_all x out_path overwrite (before @ c # rest) w0 = Some (Inl e, w2)"
    by (rule process_all_first_failure)
  with list show ?thesis
    by (simp add: get_citations_def then_do_returns then_do_raises iter_def)
qed

subsection \<open>The crawl whose first page holds no result block\<close>

lemma crawl_list_fetch:
  "search crawl [(u ''engine'', YStr (u ''google_scholar'')), (u ''sort'', YStr (u ''pubdate'')),
       (u ''cites'', YStr (u ''c1''))] (Some (u ''organic_results'')) True (Some [u ''results'']) False empty_world =
     Some (Inr (YList ([] @ crawl_citation (u ''First paper'') (u ''r1'') #
                  [crawl_citation (u ''Second paper'') (u ''r2'')])), crawl_world0)"
proof -
  have c: "cached crawl (Some (u ''organic_results'')) True (Some [u ''results'']) False empty_world = None"
    by (simp add: cached_def glob_def entries_def empty_world_def crawl_def sim_def)
  have d: "with_defaults [(u ''engine'', YStr (u ''google_scholar'')), (u ''sort'', YStr (u ''pubdate'')),
       (u ''cites'', YStr (u ''c1''))] empty_world = Inr crawl_list_query"
    by (simp add: with_defaults_def empty_world_def crawl_list_query_def dict_get_def u_def)
  have n: "page_name (Some (u ''organic_results'')) a b = u ''organic_results_0-2.yaml''"
    if "a = 2" and "b = 2" for a b
    using that by (simp add: page_name_def key_str_def str_nat.simps) (simp add: u_def)
  have "fetch_page crawl (Some (u ''organic_results'')) True (Some [u ''results'']) crawl_list_query [] empty_world =
      (Inr ([] @ [crawl_citation (u ''First paper'') (u ''r1''), crawl_citation (u ''Second paper'') (u ''r2'')],
            YList ([] @ [crawl_citation (u ''First paper'') (u ''r1''), crawl_citation (u ''Second paper'') (u ''r2'')]),
            map_option (dict_update crawl_list_query) None),
       save_yaml (YDict crawl_list)
         ([u ''results''] @ [page_name (Some (u ''organic_results''))
            (length ([]::yval list) + length [crawl_citation (u ''First paper'') (u ''r1''), crawl_citation (u ''Second paper'') (u ''r2'')])
            (length [crawl_citation (u ''First paper'') (u ''r1''), crawl_citation (u ''Second paper'') (u ''r2'')])])
         (empty_world\<lparr>serp_log := serp_log empty_world @ [crawl_list_query]\<rparr>))"
  proof (rule fetch_page_items)
    show "serp crawl (serp_log empty_world) crawl_list_query = Inr crawl_list"
      by (simp add: crawl_def crawl_serp_def crawl_list_query_def dict_get_def u_def)
    show "dict_get crawl_list (u ''error'') = None"
      by (simp add: crawl_list_def dict_get_def u_def)
    show "dict_get crawl_list (u ''organic_results'') =
        Some (YList [crawl_citation (u ''First paper'') (u ''r1''), crawl_citation (u ''Second paper'') (u ''r2'')])"
      by (simp add: crawl_list_def dict_get_def)
    show "continuation crawl True crawl_list = Inr None"
      by (rule continuation_last) (simp add: crawl_list_def dict_get_def u_def)
  qed
  then have "fetch_page crawl (Some (u ''organic_results'')) True (Some [u ''results'']) crawl_list_query [] empty_world =
      (Inr ([crawl_citation (u ''First paper'') (u ''r1''), crawl_citation (u ''Second paper'') (u ''r2'')],
            YList [crawl_citation (u ''First paper'') (u ''r1''), crawl_citation (u ''Second paper'') (u ''r2'')],
            None), crawl_world0)"
    by (simp add: n crawl_world0_def empty_world_def)
  from search_loop_single [OF this] c d show ?thesis
    by (simp add: search_def)
qed

lemma crawl_serp_of_crawl: "serp crawl = crawl_serp"
  by (simp add: crawl_def)

lemma crawl_first_query:
  "citation_query x (Some [u ''results'']) (crawl_citation (u ''First paper'') (u ''r1'')) =
     Inr (u ''First paper'', [u ''A. Smith''], crawl_first_params, crawl_first_dir)"
  by (simp add: citation_query_def bind_err_def crawl_citation_def subscript_def get_default_def
      dict_get_def iter_def as_str_def format_value_def MAX_LEN_def crawl_first_params_def
      crawl_first_dir_def u_def)

lemma crawl_world0_files:
  "files crawl_world0 = [([u ''results'', u ''organic_results_0-2.yaml''], Yaml (YDict crawl_list))]"
  "dirs crawl_world0 = [[u ''results'']]"
  "env_api_key crawl_world0 = Some (u ''secret'')"
  "serp_log crawl_world0 = [crawl_list_query]"
  "http_log crawl_world0 = []"
  by (simp_all add: crawl_world0_def save_yaml_def empty_world_def mkdirs_def parent_def)

lemma crawl_first_article:
  assumes "serp x = crawl_serp"
  shows "search x crawl_first_params None False (Some (crawl_first_dir @ [u ''article.yaml''])) False
           crawl_world0 = Some (Inr (YDict crawl_article), crawl_world1)"
proof -
  have c: "cached x None False (Some (crawl_first_dir @ [u ''article.yaml''])) False crawl_world0 = None"
    by (simp add: cached_def is_file_def crawl_world0_files crawl_first_dir_def u_def)
  have d: "with_defaults crawl_first_params crawl_world0 =
      Inr (crawl_first_params @ [(u ''api_key'', YStr (u ''secret'')), (u ''num'', YInt 20)])"
    by (simp add: with_defaults_def crawl_world0_files crawl_first_params_def dict_get_def u_def)
  have s: "serp x [crawl_list_query]
      (crawl_first_params @ [(u ''api_key'', YStr (u ''secret'')), (u ''num'', YInt 20)]) = Inr crawl_article"
    by (simp add: assms crawl_serp_def crawl_first_params_def dict_get_def u_def)
  have e: "check_error crawl_article = Inr ()"
    by (simp add: check_error_def crawl_article_def dict_get_def u_def)
  have "fetch_page x None False (Some (crawl_first_dir @ [u ''article.yaml'']))
      (crawl_first_params @ [(u ''api_key'', YStr (u ''secret'')), (u ''num'', YInt 20)]) [] crawl_world0 =
      (Inr ([], YDict crawl_article, None), crawl_world1)"
    by (simp add: fetch_page_def Let_def crawl_world0_files s e extract_items_def save_page_def
        continuation_def crawl_world1_def)
  from search_loop_single [OF this] c d show ?thesis
    by (simp add: search_def)
qed

lemma crawl_first_url:
  "raw_html_url (YDict crawl_article) = Inr (YStr (u ''https://serpapi.com/page.html''))"
  by (simp add: raw_html_url_def bind_err_def subscript_def crawl_article_def dict_get_def u_def)

lemma crawl_world1_files:
  "files crawl_world1 =
     [([u ''results'', u ''organic_results_0-2.yaml''], Yaml (YDict crawl_list)),
      (crawl_first_dir @ [u ''article.yaml''], Yaml (YDict crawl_article))]"
  "dirs crawl_world1 = [[u ''results''], crawl_first_dir]"
  "http_log crawl_world1 = []"
  by (simp_all add: crawl_world1_def save_yaml_def crawl_world0_files mkdirs_def parent_def
      crawl_first_dir_def upt_rec [of 1] upt_rec [of 2] u_def)

text \<open>The page of the first citing work is fetched and written: what it parses to is open.\<close>

lemma crawl_first_page:
  assumes "http_get x = (\<lambda>url. Inr (u ''<html></html>''))"
  shows "parse_authors x (YStr (u ''https://serpapi.com/page.html''))
           (Some (crawl_first_dir @ [u ''article.html''])) False crawl_world1 =
         (parse_page (soup x (u ''<html></html>'')), crawl_world2)"
proof -
  have a: "\<not> is_file (parent (crawl_first_dir @ [u ''article.html'']) @ [u ''authors.yaml'']) crawl_world1"
    by (simp add: is_file_def parent_def crawl_world1_files crawl_first_dir_def u_def)
  have b: "\<not> is_file (crawl_first_dir @ [u ''article.html'']) crawl_world1"
    by (simp add: is_file_def crawl_world1_files crawl_first_dir_def u_def)
  have c: "write_bytes (u ''<html></html>'') (crawl_first_dir @ [u ''article.html''])
        (crawl_world1\<lparr>http_log := http_log crawl_world1 @ [YStr (u ''https://serpapi.com/page.html'')]\<rparr>) =
      Inr crawl_world2"
    by (simp add: write_bytes_def is_dir_def parent_def crawl_world1_files crawl_world2_def)
      (simp add: crawl_first_dir_def u_def)
  have d: "page_content x (YStr (u ''https://serpapi.com/page.html'')) (crawl_first_dir @ [u ''article.html''])
      False crawl_world1 = (Inr (u ''<html></html>''), crawl_world2)"
    using b c by (simp add: page_content_def Let_def assms)
  from a d show ?thesis
    by (simp add: parse_authors_def Let_def)
qed

lemma crawl_first_parse:
  "parse_authors crawl (YStr (u ''https://serpapi.com/page.html''))
     (Some (crawl_first_dir @ [u ''article.html''])) False crawl_world1 = (Inl AttributeError, crawl_world2)"
proof -
  have "parse_page (soup crawl (u ''<html></html>'')) = Inl AttributeError"
    by (simp add: parse_page_def find_elem_def has_tag_class_def crawl_def u_def)
  then show ?thesis
    by (simp add: crawl_first_page crawl_def)
qed

text \<open>
  In that crawl the premises hold with no citation before the first, and the call
  raises after the list, one look-up and one page: the second citing work is not asked
  for.
\<close>

theorem parse_failure_aborts_witness:
  "get_citations crawl (YStr (u ''c1'')) (Some [u ''results'']) False empty_world =
     Some (Inl AttributeError, crawl_world2) \<and>
   serp_log crawl_world2 =
     [crawl_list_query, crawl_first_params @ [(u ''api_key'', YStr (u ''secret'')), (u ''num'', YInt 20)]]"
proof -
  have "process_all crawl (Some [u ''results'']) False [] crawl_world0 = Some (Inr [], crawl_world0)"
    by (simp add: pure_step_def)
  from parse_failure_aborts [OF crawl_list_fetch this crawl_first_query
      crawl_serp_of_crawl [THEN crawl_first_article] crawl_first_url crawl_first_parse]
  show ?thesis
    by (simp add: crawl_world2_def crawl_world1_def save_yaml_def)
qed

text \<open>
  C6 as it is stated fails in that crawl: the parse failure on the page of the first
  citing work is the result of the whole call, no citation is returned, nothing is
  logged, and the service was asked twice only: for the list and for the first work.
\<close>

theorem crawl_aborts_counterexample:
  "map_option (\<lambda>(r, w). (r, length (serp_log w), logged w))
     (get_citations crawl (YStr (u ''c1'')) (Some [u ''results'']) False empty_world) =
   Some (Inl AttributeError, 2, [])"
proof -
  have p: "process_citation crawl (Some [u ''results'']) False (crawl_citation (u ''First paper'') (u ''r1'')) crawl_world0 =
      Some (Inl AttributeError, crawl_world2)"
    using crawl_first_query crawl_serp_of_crawl [THEN crawl_first_article] crawl_first_url crawl_first_parse
    by (rule process_citation_parse_failure)
  have "get_citations crawl (YStr (u ''c1'')) (Some [u ''results'']) False empty_world =
      Some (Inl AttributeError, crawl_world2)"
    using crawl_list_fetch p
    by (simp add: get_citations_def then_do_returns then_do_raises iter_def)
  then show ?thesis
    by (simp add: crawl_world2_def crawl_world1_def crawl_world0_def save_yaml_def empty_world_def)
qed

subsection \<open>The warnings of a processed citation\<close>







subsection \<open>The crawl whose first page holds another title\<close>




end
